theory Spec2Isabelle
  imports Main "HOL-Library.Sublist" "HOL-Library.Multiset"
begin

section \<open>Overview\<close>

text \<open>
  The repository extracts TypeScript prop types from shadcn components.  It holds two
  extractors.  The first, \<^verbatim>\<open>get-component-props.ts\<close>, works on the raw component
  name and tries three extraction tiers per file.  The second, the main module of the
  package, works on a \<open>ComponentData\<close> object (raw, kebab-case and Pascal-case name,
  sub-components, dependencies, primitive imports), names the props of sub-components
  and removes duplicate declarations.  Where both have a function of the same name, the
  one of the second extractor carries the suffix \<open>_cd\<close> here.  The registry of known
  components is \<^verbatim>\<open>component-registry.ts\<close>.

  Parsers, the file system, the formatter and the regular-expression engine are not
  part of the program; what the program reads from them is an input of the model, and
  an exception they throw is a value \<open>Inl e\<close>.
\<close>

section \<open>Strings\<close>

text \<open>
  A JavaScript string is a sequence of UTF-16 code units.  It is modelled as a
  \<^typ>\<open>string\<close>, one \<^typ>\<open>char\<close> for each code unit; the code units a \<^typ>\<open>char\<close>
  can stand for are those from U+0000 to U+00FF, and a string with any other code unit
  is outside the model.  The classes \<^verbatim>\<open>[a-z]\<close>, \<^verbatim>\<open>[A-Z]\<close>, \<^verbatim>\<open>[0-9]\<close>,
  \<^verbatim>\<open>[a-zA-Z0-9]\<close> and \<^verbatim>\<open>[A-Za-z0-9_]\<close> of the program's patterns are ranges of
  ASCII.
\<close>

definition isLower :: "char \<Rightarrow> bool" where
  "isLower c = (97 \<le> (of_char c :: nat) \<and> (of_char c :: nat) \<le> 122)"

definition isUpper :: "char \<Rightarrow> bool" where
  "isUpper c = (65 \<le> (of_char c :: nat) \<and> (of_char c :: nat) \<le> 90)"

definition isDigit :: "char \<Rightarrow> bool" where
  "isDigit c = (48 \<le> (of_char c :: nat) \<and> (of_char c :: nat) \<le> 57)"

definition isAlnum :: "char \<Rightarrow> bool" where
  "isAlnum c = (isLower c \<or> isUpper c \<or> isDigit c)"

text \<open>The class \<^verbatim>\<open>[A-Za-z0-9_]\<close> of the declaration-name patterns.\<close>

definition isWordChar :: "char \<Rightarrow> bool" where
  "isWordChar c = (isAlnum c \<or> c = CHR ''_'')"

text \<open>
  The class \<^verbatim>\<open>\s\<close>.  Up to U+00FF its members are the space, the tab, the line
  feed, the vertical tab, the form feed, the carriage return and the no-break space
  U+00A0.
\<close>

definition isSpace :: "char \<Rightarrow> bool" where
  "isSpace c =
     ((of_char c :: nat) = 32 \<or> (9 \<le> (of_char c :: nat) \<and> (of_char c :: nat) \<le> 13) \<or>
      (of_char c :: nat) = 160)"

text \<open>
  \<^verbatim>\<open>String.prototype.toLowerCase\<close>, code unit by code unit.  Up to U+00FF the
  letters with a lower-case form are \<^verbatim>\<open>A\<close> to \<^verbatim>\<open>Z\<close> and the letters U+00C0 to
  U+00DE except the multiplication sign U+00D7; the lower-case form is 32 further on.
\<close>

definition hasLowerCase :: "char \<Rightarrow> bool" where
  "hasLowerCase c =
     (isUpper c \<or>
      (192 \<le> (of_char c :: nat) \<and> (of_char c :: nat) \<le> 214) \<or>
      (216 \<le> (of_char c :: nat) \<and> (of_char c :: nat) \<le> 222))"

definition toLowerChar :: "char \<Rightarrow> char" where
  "toLowerChar c = (if hasLowerCase c then char_of ((of_char c :: nat) + 32) else c)"

definition toLowerCase :: "string \<Rightarrow> string" where
  "toLowerCase s = map toLowerChar s"

text \<open>
  \<^verbatim>\<open>toUpperCase\<close> is called in one place of what is modelled, on the first
  character of a part that \<open>pascalCaseName\<close> has split off at the characters outside
  \<^verbatim>\<open>[a-zA-Z0-9]\<close>.  On such characters it turns \<^verbatim>\<open>a\<close> to \<^verbatim>\<open>z\<close> into \<^verbatim>\<open>A\<close> to
  \<^verbatim>\<open>Z\<close> and leaves the others alone, which is all that is modelled of it.
\<close>

definition toUpperChar :: "char \<Rightarrow> char" where
  "toUpperChar c = (if isLower c then char_of ((of_char c :: nat) - 32) else c)"

definition toUpperCase :: "string \<Rightarrow> string" where
  "toUpperCase s = map toUpperChar s"

text \<open>A string of ASCII characters only.\<close>

definition isAscii :: "string \<Rightarrow> bool" where
  "isAscii s = list_all (\<lambda>c. (of_char c :: nat) < 128) s"

text \<open>\<^verbatim>\<open>s.includes(sub)\<close>: \<open>sub\<close> occurs in \<open>s\<close> as a contiguous run.\<close>

fun includes_str :: "string \<Rightarrow> string \<Rightarrow> bool" where
  "includes_str [] sub = (sub = [])"
| "includes_str (c # cs) sub = (prefix sub (c # cs) \<or> includes_str cs sub)"

text \<open>\<^verbatim>\<open>s.split(sep)\<close> for a separator matching one character: always at least one piece.\<close>

fun splitOn :: "(char \<Rightarrow> bool) \<Rightarrow> string \<Rightarrow> string list" where
  "splitOn sep [] = [[]]"
| "splitOn sep (c # cs) =
     (if sep c then [] # splitOn sep cs
      else (case splitOn sep cs of [] \<Rightarrow> [[c]] | p # ps \<Rightarrow> (c # p) # ps))"

text \<open>\<^verbatim>\<open>parts.join(sep)\<close>.\<close>

fun join :: "string \<Rightarrow> string list \<Rightarrow> string" where
  "join sep [] = []"
| "join sep [p] = p"
| "join sep (p # q # ps) = p @ sep @ join sep (q # ps)"

section \<open>Name normalizer\<close>

datatype error = Error string | TypeError string

text \<open>
  \<open>extractComponentName\<close> of \<^verbatim>\<open>get-component-props.ts\<close>: an empty input throws; a
  URL (anything that starts with \<^verbatim>\<open>http\<close>) gives its last path segment up to the
  first \<^verbatim>\<open>?\<close> or \<^verbatim>\<open>#\<close>; any other input is returned as it is.
\<close>

definition extractComponentName :: "string \<Rightarrow> error + string" where
  "extractComponentName input =
     (if input = [] then Inl (Error ''No component name or URL provided'')
      else if prefix ''http'' input then
        (let lastPathSegment = last (splitOn (\<lambda>c. c = CHR ''/'') input)
         in Inr (hd (splitOn (\<lambda>c. c = CHR ''?'' \<or> c = CHR ''#'') lastPathSegment)))
      else Inr input)"

text \<open>
  The kebab-case key, \<^verbatim>\<open>name.replace(/([a-z])([A-Z])/g, '$1-$2').toLowerCase()\<close>, as
  \<open>installShadcnComponent\<close>, \<open>findComponentFiles\<close> and \<open>getComponentDependencies\<close>
  compute it.  The global replace scans from the left and resumes after each match, so
  the upper-case letter of a match is never the lower-case letter of the next one.
\<close>

fun kebabReplace :: "string \<Rightarrow> string" where
  "kebabReplace (a # b # cs) =
     (if isLower a \<and> isUpper b then a # CHR ''-'' # b # kebabReplace cs
      else a # kebabReplace (b # cs))"
| "kebabReplace cs = cs"

definition normalizedName :: "string \<Rightarrow> string" where
  "normalizedName name = toLowerCase (kebabReplace name)"

text \<open>
  The Pascal-case prefix of \<open>createDefaultPropsInterface\<close> in
  \<^verbatim>\<open>get-component-props.ts\<close>: split at every character outside \<^verbatim>\<open>[a-zA-Z0-9]\<close>,
  upper-case the first character of each part, lower-case the rest, concatenate.
\<close>

definition capitalizePart :: "string \<Rightarrow> string" where
  "capitalizePart part = toUpperCase (take 1 part) @ toLowerCase (drop 1 part)"

definition pascalCaseName :: "string \<Rightarrow> string" where
  "pascalCaseName name =
     concat (map capitalizePart (splitOn (\<lambda>c. \<not> isAlnum c) name))"

text \<open>
  \<open>ComponentData\<close> and \<open>normalizeComponentName\<close> of the second extractor.  The
  kebab-case and Pascal-case forms come from the \<^verbatim>\<open>change-case\<close> package, taken here
  as the parameters \<open>paramCase\<close> and \<open>pascalCase\<close>.  The function does not look at
  whether its input is empty, and it records the input in the module-level map
  \<open>originalComponentNames\<close>, which is returned updated.
\<close>

record ComponentData =
  componentName :: string
  normalizedName_cd :: string
  pascalName :: string
  subComponents :: "string list"
  dependencies :: "string list"
  primitiveImports :: "(string \<times> string) list"

definition normalizeComponentName ::
  "(string \<Rightarrow> string) \<Rightarrow> (string \<Rightarrow> string) \<Rightarrow> (string \<rightharpoonup> string) \<Rightarrow> string
     \<Rightarrow> ComponentData \<times> (string \<rightharpoonup> string)" where
  "normalizeComponentName paramCase pascalCase originalComponentNames input =
     (let name =
            (if prefix ''http'' input then
               (let seg = hd (splitOn (\<lambda>c. c = CHR ''?'' \<or> c = CHR ''#'')
                               (last (splitOn (\<lambda>c. c = CHR ''/'') input)))
                in if seg = [] then input else seg)
             else input)
      in (\<lparr> componentName = name,
            normalizedName_cd = paramCase name,
            pascalName = pascalCase name,
            subComponents = [],
            dependencies = [],
            primitiveImports = [] \<rparr>,
          originalComponentNames(name \<mapsto> input)))"

text \<open>
  The guard at the head of \<open>main\<close>, in both extractors: a falsy argument throws before
  any name is normalized.
\<close>

definition main_guard :: "string \<Rightarrow> error + string" where
  "main_guard componentNameOrUrl =
     (if componentNameOrUrl = [] then Inl (Error ''No component name or URL provided'')
      else Inr componentNameOrUrl)"

section \<open>Component registry\<close>

text \<open>
  The static registry of \<^verbatim>\<open>component-registry.ts\<close>: an object literal keyed by the
  kebab-case component name.
\<close>

record ComponentDependencies =
  package :: string
  primitive :: string
  subComponents_reg :: "string list"
  additionalDeps :: "string list option"

definition componentRegistry :: "(string \<times> ComponentDependencies) list" where
  "componentRegistry =
    [
     (''accordion'',
      \<lparr> package = ''@radix-ui/react-accordion'', primitive = ''AccordionPrimitive'',
        subComponents_reg = [''Root'', ''Item'', ''Trigger'', ''Content''],
        additionalDeps = Some [''lucide-react''] \<rparr>),
     (''alert-dialog'',
      \<lparr> package = ''@radix-ui/react-alert-dialog'', primitive = ''AlertDialogPrimitive'',
        subComponents_reg = [''Root'', ''Trigger'', ''Content'', ''Header'', ''Footer'', ''Title'', ''Description'', ''Cancel'', ''Action''],
        additionalDeps = Some [] \<rparr>),
     (''aspect-ratio'',
      \<lparr> package = ''@radix-ui/react-aspect-ratio'', primitive = ''AspectRatioPrimitive'',
        subComponents_reg = [],
        additionalDeps = Some [] \<rparr>),
     (''avatar'',
      \<lparr> package = ''@radix-ui/react-avatar'', primitive = ''AvatarPrimitive'',
        subComponents_reg = [''Root'', ''Image'', ''Fallback''],
        additionalDeps = Some [] \<rparr>),
     (''badge'',
      \<lparr> package = '''', primitive = '''',
        subComponents_reg = [],
        additionalDeps = Some [''class-variance-authority''] \<rparr>),
     (''button'',
      \<lparr> package = ''@radix-ui/react-slot'', primitive = ''Slot'',
        subComponents_reg = [],
        additionalDeps = Some [''class-variance-authority''] \<rparr>),
     (''calendar'',
      \<lparr> package = ''react-day-picker'', primitive = ''DayPicker'',
        subComponents_reg = [],
        additionalDeps = Some [''date-fns''] \<rparr>),
     (''card'',
      \<lparr> package = '''', primitive = '''',
        subComponents_reg = [''Header'', ''Title'', ''Description'', ''Content'', ''Footer''],
        additionalDeps = Some [] \<rparr>),
     (''checkbox'',
      \<lparr> package = ''@radix-ui/react-checkbox'', primitive = ''CheckboxPrimitive'',
        subComponents_reg = [''Root'', ''Indicator''],
        additionalDeps = Some [''lucide-react''] \<rparr>),
     (''collapsible'',
      \<lparr> package = ''@radix-ui/react-collapsible'', primitive = ''CollapsiblePrimitive'',
        subComponents_reg = [''Root'', ''Trigger'', ''Content''],
        additionalDeps = Some [] \<rparr>),
     (''command'',
      \<lparr> package = ''cmdk'', primitive = ''Command'',
        subComponents_reg = [''Empty'', ''Group'', ''Input'', ''Item'', ''List'', ''Loading'', ''Dialog'', ''Separator''],
        additionalDeps = Some [''lucide-react''] \<rparr>),
     (''context-menu'',
      \<lparr> package = ''@radix-ui/react-context-menu'', primitive = ''ContextMenuPrimitive'',
        subComponents_reg = [''Root'', ''Trigger'', ''Portal'', ''Content'', ''Item'', ''CheckboxItem'', ''RadioItem'', ''Group'', ''Label'', ''Separator''],
        additionalDeps = Some [''lucide-react''] \<rparr>),
     (''date-picker'',
      \<lparr> package = ''react-day-picker'', primitive = ''DayPicker'',
        subComponents_reg = [],
        additionalDeps = Some [''date-fns''] \<rparr>),
     (''dialog'',
      \<lparr> package = ''@radix-ui/react-dialog'', primitive = ''DialogPrimitive'',
        subComponents_reg = [''Root'', ''Trigger'', ''Portal'', ''Close'', ''Content'', ''Header'', ''Footer'', ''Title'', ''Description''],
        additionalDeps = Some [''lucide-react''] \<rparr>),
     (''drawer'',
      \<lparr> package = ''@radix-ui/react-dialog'', primitive = ''DialogPrimitive'',
        subComponents_reg = [''Root'', ''Trigger'', ''Portal'', ''Close'', ''Content'', ''Header'', ''Footer'', ''Title'', ''Description''],
        additionalDeps = Some [''vaul''] \<rparr>),
     (''dropdown-menu'',
      \<lparr> package = ''@radix-ui/react-dropdown-menu'', primitive = ''DropdownMenuPrimitive'',
        subComponents_reg = [''Root'', ''Trigger'', ''Group'', ''Portal'', ''Content'', ''Item'', ''CheckboxItem'', ''RadioGroup'', ''RadioItem'', ''Label'', ''Separator''],
        additionalDeps = Some [''lucide-react''] \<rparr>),
     (''form'',
      \<lparr> package = '''', primitive = '''',
        subComponents_reg = [''Item'', ''Label'', ''Control'', ''Description'', ''Message''],
        additionalDeps = Some [''react-hook-form'', ''@hookform/resolvers'', ''zod''] \<rparr>),
     (''hover-card'',
      \<lparr> package = ''@radix-ui/react-hover-card'', primitive = ''HoverCardPrimitive'',
        subComponents_reg = [''Root'', ''Trigger'', ''Portal'', ''Content''],
        additionalDeps = Some [] \<rparr>),
     (''input'',
      \<lparr> package = '''', primitive = '''',
        subComponents_reg = [],
        additionalDeps = Some [] \<rparr>),
     (''label'',
      \<lparr> package = ''@radix-ui/react-label'', primitive = ''LabelPrimitive'',
        subComponents_reg = [],
        additionalDeps = Some [] \<rparr>),
     (''menubar'',
      \<lparr> package = ''@radix-ui/react-menubar'', primitive = ''MenubarPrimitive'',
        subComponents_reg = [''Root'', ''Menu'', ''Trigger'', ''Portal'', ''Content'', ''Item'', ''CheckboxItem'', ''RadioGroup'', ''RadioItem'', ''Label'', ''Separator'', ''Group''],
        additionalDeps = Some [''lucide-react''] \<rparr>),
     (''navigation-menu'',
      \<lparr> package = ''@radix-ui/react-navigation-menu'', primitive = ''NavigationMenuPrimitive'',
        subComponents_reg = [''Root'', ''List'', ''Item'', ''Trigger'', ''Content'', ''Link''],
        additionalDeps = Some [] \<rparr>),
     (''not-found'',
      \<lparr> package = '''', primitive = '''',
        subComponents_reg = [],
        additionalDeps = Some [''lucide-react''] \<rparr>),
     (''popover'',
      \<lparr> package = ''@radix-ui/react-popover'', primitive = ''PopoverPrimitive'',
        subComponents_reg = [''Root'', ''Trigger'', ''Content''],
        additionalDeps = Some [] \<rparr>),
     (''progress'',
      \<lparr> package = ''@radix-ui/react-progress'', primitive = ''ProgressPrimitive'',
        subComponents_reg = [''Root''],
        additionalDeps = Some [] \<rparr>),
     (''radio-group'',
      \<lparr> package = ''@radix-ui/react-radio-group'', primitive = ''RadioGroupPrimitive'',
        subComponents_reg = [''Root'', ''Item'', ''Indicator''],
        additionalDeps = Some [] \<rparr>),
     (''scroll-area'',
      \<lparr> package = ''@radix-ui/react-scroll-area'', primitive = ''ScrollAreaPrimitive'',
        subComponents_reg = [''Root'', ''Viewport'', ''Scrollbar'', ''Thumb'', ''Corner''],
        additionalDeps = Some [] \<rparr>),
     (''select'',
      \<lparr> package = ''@radix-ui/react-select'', primitive = ''SelectPrimitive'',
        subComponents_reg = [''Root'', ''Group'', ''Value'', ''Trigger'', ''Content'', ''Label'', ''Item'', ''Separator''],
        additionalDeps = Some [''lucide-react''] \<rparr>),
     (''separator'',
      \<lparr> package = ''@radix-ui/react-separator'', primitive = ''SeparatorPrimitive'',
        subComponents_reg = [],
        additionalDeps = Some [] \<rparr>),
     (''sheet'',
      \<lparr> package = ''@radix-ui/react-dialog'', primitive = ''DialogPrimitive'',
        subComponents_reg = [''Root'', ''Trigger'', ''Portal'', ''Close'', ''Content'', ''Header'', ''Footer'', ''Title'', ''Description''],
        additionalDeps = Some [] \<rparr>),
     (''skeleton'',
      \<lparr> package = '''', primitive = '''',
        subComponents_reg = [],
        additionalDeps = Some [] \<rparr>),
     (''slider'',
      \<lparr> package = ''@radix-ui/react-slider'', primitive = ''SliderPrimitive'',
        subComponents_reg = [''Root'', ''Track'', ''Range'', ''Thumb''],
        additionalDeps = Some [] \<rparr>),
     (''switch'',
      \<lparr> package = ''@radix-ui/react-switch'', primitive = ''SwitchPrimitive'',
        subComponents_reg = [''Root'', ''Thumb''],
        additionalDeps = Some [] \<rparr>),
     (''tabs'',
      \<lparr> package = ''@radix-ui/react-tabs'', primitive = ''TabsPrimitive'',
        subComponents_reg = [''Root'', ''List'', ''Trigger'', ''Content''],
        additionalDeps = Some [] \<rparr>),
     (''textarea'',
      \<lparr> package = '''', primitive = '''',
        subComponents_reg = [],
        additionalDeps = Some [] \<rparr>),
     (''toast'',
      \<lparr> package = ''@radix-ui/react-toast'', primitive = ''ToastPrimitive'',
        subComponents_reg = [''Root'', ''Provider'', ''Viewport'', ''Title'', ''Description'', ''Action'', ''Close''],
        additionalDeps = Some [] \<rparr>),
     (''toggle'',
      \<lparr> package = ''@radix-ui/react-toggle'', primitive = ''TogglePrimitive'',
        subComponents_reg = [''Root''],
        additionalDeps = Some [] \<rparr>),
     (''toggle-group'',
      \<lparr> package = ''@radix-ui/react-toggle-group'', primitive = ''ToggleGroupPrimitive'',
        subComponents_reg = [''Root'', ''Item''],
        additionalDeps = Some [] \<rparr>),
     (''tooltip'',
      \<lparr> package = ''@radix-ui/react-tooltip'', primitive = ''TooltipPrimitive'',
        subComponents_reg = [''Root'', ''Provider'', ''Trigger'', ''Content''],
        additionalDeps = Some [] \<rparr>)
    ]"

text \<open>
  \<open>componentRegistry\<close> is a plain object literal, so a property read that finds no own
  key goes on to \<^verbatim>\<open>Object.prototype\<close>.  These are the property names found there;
  every one of them holds a function or an object, hence a truthy value.
\<close>

definition objectPrototypeKeys :: "string list" where
  "objectPrototypeKeys =
     [''constructor'', ''__defineGetter__'', ''__defineSetter__'', ''hasOwnProperty'',
      ''__lookupGetter__'', ''__lookupSetter__'', ''isPrototypeOf'',
      ''propertyIsEnumerable'', ''toString'', ''valueOf'', ''__proto__'',
      ''toLocaleString'']"

text \<open>
  What a read \<^verbatim>\<open>componentRegistry[key]\<close> can give: an entry of the registry, or a
  member inherited from \<^verbatim>\<open>Object.prototype\<close> (named by its key).
\<close>

datatype registry_value = Entry ComponentDependencies | Inherited string

text \<open>
  \<open>getComponentDependencies\<close>: the name is rewritten to kebab-case and read from the
  registry; \<^verbatim>\<open>|| null\<close> turns a missing property into \<open>null\<close> (\<open>None\<close>).
\<close>

definition getComponentDependencies :: "string \<Rightarrow> registry_value option" where
  "getComponentDependencies name =
     (let key = normalizedName name
      in case map_of componentRegistry key of
           Some entry \<Rightarrow> Some (Entry entry)
         | None \<Rightarrow> if key \<in> set objectPrototypeKeys then Some (Inherited key) else None)"

section \<open>The props-type predicate\<close>

text \<open>
  \<open>isPropsType\<close> of \<^verbatim>\<open>get-component-props.ts\<close>.  It is given the type name and the
  raw component name, and knows two lower-case markers, \<^verbatim>\<open>props\<close> and
  \<^verbatim>\<open>attributes\<close>.
\<close>

definition isPropsType :: "string \<Rightarrow> string \<Rightarrow> bool" where
  "isPropsType name cname =
     (let normalizedComponentName = toLowerCase cname;
          lowerName = toLowerCase name
      in includes_str name ''Props'' \<or>
         (includes_str lowerName normalizedComponentName \<and>
          (includes_str lowerName ''props'' \<or> includes_str lowerName ''attributes'')) \<or>
         name = ''Props'')"

text \<open>
  \<open>isPropsType\<close> of the second extractor.  It is given the whole \<open>ComponentData\<close>
  and compares with the raw, the kebab-case and the Pascal-case name; its only
  lower-case marker is \<^verbatim>\<open>props\<close>.
\<close>

definition isPropsType_cd :: "string \<Rightarrow> ComponentData \<Rightarrow> bool" where
  "isPropsType_cd name cd =
     (let lowerName = toLowerCase name;
          lowerComponentName = toLowerCase (componentName cd);
          lowerNormalizedName = toLowerCase (normalizedName_cd cd);
          lowerPascalName = toLowerCase (pascalName cd)
      in includes_str name ''Props'' \<or>
         lowerName = ''props'' \<or>
         (includes_str lowerName ''props'' \<and>
          (includes_str lowerName lowerComponentName \<or>
           includes_str lowerName lowerNormalizedName \<or>
           includes_str lowerName lowerPascalName)))"

text \<open>
  The predicate as the specification words it, for comparison with the two above: the
  name is the marker \<^verbatim>\<open>Props\<close>, or contains it, or it contains (ignoring case) the
  raw, the kebab-case or the Pascal-case component name together with a props or an
  attributes marker.
\<close>

definition looksLikePropsType_spec :: "string \<Rightarrow> string \<Rightarrow> string \<Rightarrow> string \<Rightarrow> bool" where
  "looksLikePropsType_spec name raw kebab pascal =
     (name = ''Props'' \<or>
      includes_str name ''Props'' \<or>
      ((includes_str (toLowerCase name) (toLowerCase raw) \<or>
        includes_str (toLowerCase name) (toLowerCase kebab) \<or>
        includes_str (toLowerCase name) (toLowerCase pascal)) \<and>
       (includes_str (toLowerCase name) ''props'' \<or>
        includes_str (toLowerCase name) ''attributes'')))"

section \<open>Extraction strategy chain\<close>

text \<open>
  The three tiers of \<^verbatim>\<open>get-component-props.ts\<close> rest on libraries that are not part
  of the program: the ts-morph project, the Babel parser and traversal, the file system
  and the regular-expression engine.  What the tiers read from them is data here.

  A \<open>SourceFile\<close> is what \<open>extractPropsWithTsMorph\<close> reads from ts-morph: the
  interfaces and type aliases as (name, text), the exported declarations as
  (name, texts of the declarations), and the text of every type-reference node in the
  order of \<^verbatim>\<open>forEachDescendantAsArray\<close>.
\<close>

record SourceFile =
  interfaces :: "(string \<times> string) list"
  typeAliases :: "(string \<times> string) list"
  exportedDeclarations :: "(string \<times> string list) list"
  typeReferences :: "string list"

text \<open>
  The nodes the Babel traversal hands to the three visitors, in visiting order, with
  the \<open>start\<close> and \<open>end\<close> offsets of each node (\<open>None\<close> for \<open>null\<close>).
\<close>

datatype babel_declaration =
  TSInterfaceDeclaration string | TSTypeAliasDeclaration string | OtherDeclaration

datatype babel_node =
  InterfaceNode string "nat option" "nat option"
| TypeAliasNode string "nat option" "nat option"
| ExportNamedNode "babel_declaration option" "nat option" "nat option"

text \<open>
  The collaborators of one run: \<open>findComponentFiles\<close> is the file locator (it
  throws when it can neither find nor create a file), \<open>addSourceFileAtPath\<close> parses a
  file with ts-morph, \<open>readFile\<close> reads it, \<open>babelTraverse\<close> parses a text with
  Babel and lists the visited nodes; each may throw.  The three \<open>Regex\<close> fields give, for a text, the
  successive matches of the three patterns of \<open>extractPropsWithRegex\<close>: the whole
  match and, for the first two, the captured name.
\<close>

record Collaborators =
  findComponentFiles :: "string \<Rightarrow> error + string list"
  addSourceFileAtPath :: "string \<Rightarrow> error + SourceFile"
  readFile :: "string \<Rightarrow> error + string"
  babelTraverse :: "string \<Rightarrow> error + babel_node list"
  interfaceRegex :: "string \<Rightarrow> (string \<times> string) list"
  typeRegex :: "string \<Rightarrow> (string \<times> string) list"
  componentPropsRegex :: "string \<Rightarrow> string list"

definition isReactTypeReference :: "string \<Rightarrow> bool" where
  "isReactTypeReference text =
     (includes_str text ''ComponentProps<'' \<or>
      includes_str text ''ComponentPropsWithRef<'' \<or>
      includes_str text ''ComponentPropsWithoutRef<'' \<or>
      includes_str text ''HTMLAttributes<'' \<or>
      includes_str text ''HTMLProps<'')"

definition fromReactTypeReference :: "string \<Rightarrow> string \<Rightarrow> string" where
  "fromReactTypeReference cname text =
     ''// From React type reference\<newline>type '' @ cname @ ''Props = '' @ text @ '';''"

text \<open>
  \<open>extractPropsWithTsMorph\<close>.  Everything is inside one \<^verbatim>\<open>try\<close>; the
  \<^verbatim>\<open>catch\<close> returns the empty list.
\<close>

definition extractPropsWithTsMorph :: "Collaborators \<Rightarrow> string \<Rightarrow> string \<Rightarrow> string list" where
  "extractPropsWithTsMorph env file cname =
     (case addSourceFileAtPath env file of
        Inl e \<Rightarrow> []
      | Inr sourceFile \<Rightarrow>
          map snd (filter (\<lambda>(name, text). isPropsType name cname) (interfaces sourceFile)) @
          map snd (filter (\<lambda>(name, text). isPropsType name cname) (typeAliases sourceFile)) @
          concat (map snd (filter (\<lambda>(name, declarations). isPropsType name cname)
                             (exportedDeclarations sourceFile))) @
          map (fromReactTypeReference cname)
              (filter isReactTypeReference (typeReferences sourceFile)))"

text \<open>\<^verbatim>\<open>code.slice(start, end)\<close> for offsets that are not negative.\<close>

definition slice :: "string \<Rightarrow> nat \<Rightarrow> nat \<Rightarrow> string" where
  "slice code start end = take (end - start) (drop start code)"

text \<open>What one visitor call of \<open>extractPropsWithBabel\<close> pushes.\<close>

fun babelVisit :: "string \<Rightarrow> string \<Rightarrow> babel_node \<Rightarrow> string list" where
  "babelVisit code cname (InterfaceNode name (Some s) (Some e)) =
     (if isPropsType name cname then [slice code s e] else [])"
| "babelVisit code cname (TypeAliasNode name (Some s) (Some e)) =
     (if isPropsType name cname then [slice code s e] else [])"
| "babelVisit code cname (ExportNamedNode (Some (TSInterfaceDeclaration name)) (Some s) (Some e)) =
     (if isPropsType name cname then [slice code s e] else [])"
| "babelVisit code cname (ExportNamedNode (Some (TSTypeAliasDeclaration name)) (Some s) (Some e)) =
     (if isPropsType name cname then [slice code s e] else [])"
| "babelVisit code cname node = []"

definition extractPropsWithBabel :: "Collaborators \<Rightarrow> string \<Rightarrow> string \<Rightarrow> string list" where
  "extractPropsWithBabel env file cname =
     (case readFile env file of
        Inl e \<Rightarrow> []
      | Inr code \<Rightarrow>
          (case babelTraverse env code of
             Inl e \<Rightarrow> []
           | Inr nodes \<Rightarrow> concat (map (babelVisit code cname) nodes)))"

definition extractPropsWithRegex :: "Collaborators \<Rightarrow> string \<Rightarrow> string \<Rightarrow> string list" where
  "extractPropsWithRegex env file cname =
     (case readFile env file of
        Inl e \<Rightarrow> []
      | Inr code \<Rightarrow>
          map fst (filter (\<lambda>(whole, name). isPropsType name cname) (interfaceRegex env code)) @
          map fst (filter (\<lambda>(whole, name). isPropsType name cname) (typeRegex env code)) @
          map (fromReactTypeReference cname) (componentPropsRegex env code))"

text \<open>
  \<open>extractPropsFromFile\<close> of \<^verbatim>\<open>get-component-props.ts\<close>.  Besides the props it
  returns, the model keeps the list of the tiers it called, in calling order.
\<close>

datatype tier = TsMorph | Babel | Regex

definition extractPropsFromFile :: "Collaborators \<Rightarrow> string \<Rightarrow> string \<Rightarrow> string list \<times> tier list" where
  "extractPropsFromFile env file cname =
     (let (allProps, called) = (extractPropsWithTsMorph env file cname, [TsMorph]);
          (allProps, called) =
            (if length allProps = 0
             then (extractPropsWithBabel env file cname, called @ [Babel])
             else (allProps, called));
          (allProps, called) =
            (if length allProps = 0
             then (extractPropsWithRegex env file cname, called @ [Regex])
             else (allProps, called))
      in (allProps, called))"

section \<open>Synthetic default generator\<close>

text \<open>
  \<open>createDefaultPropsInterface\<close> of \<^verbatim>\<open>get-component-props.ts\<close>.  The component
  name is tested against six patterns, ignoring case and in this order; the first that
  matches gives the extra properties, and a name that matches none gets only
  \<open>children\<close>, \<open>className\<close> and the index signature.
\<close>

definition specificProps :: "string \<Rightarrow> string" where
  \<open>specificProps name =
     (let lowerName = toLowerCase name in
      if includes_str lowerName ''button'' then
        ''\<newline>'' @
        ''  /** Button variant */\<newline>'' @
        ''  variant?: "default" | "destructive" | "outline" | "secondary" | "ghost" | "link";\<newline>'' @
        ''  \<newline>'' @
        ''  /** Button size */\<newline>'' @
        ''  size?: "default" | "sm" | "lg" | "icon";\<newline>'' @
        ''  \<newline>'' @
        ''  /** Whether the button is disabled */\<newline>'' @
        ''  disabled?: boolean;\<newline>'' @
        ''  \<newline>'' @
        ''  /** HTML button type attribute */\<newline>'' @
        ''  type?: "button" | "submit" | "reset";\<newline>'' @
        ''  \<newline>'' @
        ''  /** Click handler */\<newline>'' @
        ''  onClick?: (event: React.MouseEvent<HTMLButtonElement>) => void;\<newline>'' @
        ''  \<newline>'' @
        ''  /** Whether button shows loading spinner */\<newline>'' @
        ''  isLoading?: boolean;\<newline>'' @
        ''  \<newline>'' @
        ''  /** Button HTML element ref */\<newline>'' @
        ''  ref?: React.ForwardedRef<HTMLButtonElement>;''
      else if includes_str lowerName ''accordion'' then
        ''\<newline>'' @
        ''  /** Whether accordion can have multiple items open */\<newline>'' @
        ''  type?: "single" | "multiple";\<newline>'' @
        ''  \<newline>'' @
        ''  /** Default active value */\<newline>'' @
        ''  defaultValue?: string | string[];\<newline>'' @
        ''  \<newline>'' @
        ''  /** Controlled active value */\<newline>'' @
        ''  value?: string | string[];\<newline>'' @
        ''  \<newline>'' @
        ''  /** Callback when value changes */\<newline>'' @
        ''  onValueChange?: (value: string | string[]) => void;\<newline>'' @
        ''  \<newline>'' @
        ''  /** Whether accordion items animate */\<newline>'' @
        ''  collapsible?: boolean;''
      else if includes_str lowerName ''dialog'' \<or> includes_str lowerName ''modal'' \<or>
              includes_str lowerName ''drawer'' then
        ''\<newline>'' @
        ''  /** Whether the dialog is open */\<newline>'' @
        ''  open?: boolean;\<newline>'' @
        ''  \<newline>'' @
        ''  /** Callback when open state changes */\<newline>'' @
        ''  onOpenChange?: (open: boolean) => void;\<newline>'' @
        ''  \<newline>'' @
        ''  /** Dialog position */\<newline>'' @
        ''  position?: "top" | "right" | "bottom" | "left";\<newline>'' @
        ''  \<newline>'' @
        ''  /** Whether clicking overlay closes the dialog */\<newline>'' @
        ''  modal?: boolean;''
      else if includes_str lowerName ''form'' then
        ''\<newline>'' @
        ''  /** Form submission handler */\<newline>'' @
        ''  onSubmit?: React.FormEventHandler<HTMLFormElement>;\<newline>'' @
        ''  \<newline>'' @
        ''  /** Whether form is in loading state */\<newline>'' @
        ''  loading?: boolean;\<newline>'' @
        ''  \<newline>'' @
        ''  /** Form validation schema */\<newline>'' @
        ''  schema?: any;\<newline>'' @
        ''  \<newline>'' @
        ''  /** Default form values */\<newline>'' @
        ''  defaultValues?: Record<string, any>;''
      else if includes_str lowerName ''select'' \<or> includes_str lowerName ''dropdown'' then
        ''\<newline>'' @
        ''  /** Available select options */\<newline>'' @
        ''  options?: { label: string; value: string | number }[];\<newline>'' @
        ''  \<newline>'' @
        ''  /** Currently selected value */\<newline>'' @
        ''  value?: string | number;\<newline>'' @
        ''  \<newline>'' @
        ''  /** Callback when selection changes */\<newline>'' @
        ''  onValueChange?: (value: string | number) => void;\<newline>'' @
        ''  \<newline>'' @
        ''  /** Whether select is disabled */\<newline>'' @
        ''  disabled?: boolean;\<newline>'' @
        ''  \<newline>'' @
        ''  /** Placeholder text */\<newline>'' @
        ''  placeholder?: string;''
      else if includes_str lowerName ''input'' then
        ''\<newline>'' @
        ''  /** Input type */\<newline>'' @
        ''  type?: string;\<newline>'' @
        ''  \<newline>'' @
        ''  /** Current input value */\<newline>'' @
        ''  value?: string;\<newline>'' @
        ''  \<newline>'' @
        ''  /** Default input value */\<newline>'' @
        ''  defaultValue?: string;\<newline>'' @
        ''  \<newline>'' @
        ''  /** Callback when value changes */\<newline>'' @
        ''  onChange?: React.ChangeEventHandler<HTMLInputElement>;\<newline>'' @
        ''  \<newline>'' @
        ''  /** Whether input is disabled */\<newline>'' @
        ''  disabled?: boolean;\<newline>'' @
        ''  \<newline>'' @
        ''  /** Placeholder text */\<newline>'' @
        ''  placeholder?: string;\<newline>'' @
        ''  \<newline>'' @
        ''  /** Input HTML element ref */\<newline>'' @
        ''  ref?: React.Ref<HTMLInputElement>;''
      else [])\<close>

definition createDefaultPropsInterface :: "string \<Rightarrow> string" where
  \<open>createDefaultPropsInterface name =
     ''// Default props interface based on common Shadcn patterns\<newline>'' @
     ''export interface '' @
     pascalCaseName name @
     ''Props {\<newline>'' @
     ''  /** The content to render inside the component */\<newline>'' @
     ''  children?: React.ReactNode;\<newline>'' @
     ''  \<newline>'' @
     ''  /** Additional CSS classes to apply to the component */\<newline>'' @
     ''  className?: string;'' @
     specificProps name @
     ''\<newline>'' @
     ''  \<newline>'' @
     ''  /** Additional HTML attributes */\<newline>'' @
     ''  [key: string]: any;\<newline>'' @
     ''}\<newline>'' @
     ''\<newline>'' @
     ''// Note: This is a suggested structure based on common Shadcn component patterns.\<newline>'' @
     ''// You should review the component implementation to determine the actual props it accepts.''\<close>

text \<open>
  \<open>createSingleComponentProps\<close> of the second extractor, for the root (\<open>None\<close>) or
  for one sub-component.  A \<open>null\<close> and an empty tag are both falsy.  The templates
  are chosen by the lower-cased raw name and, for accordions and dialogs, by the tag;
  names containing \<^verbatim>\<open>card\<close> or \<^verbatim>\<open>not-found\<close> have templates of their own.
\<close>

definition falsy :: "string option \<Rightarrow> bool" where
  "falsy subComponent = (subComponent = None \<or> subComponent = Some [])"

definition specificProps_cd :: "string \<Rightarrow> string option \<Rightarrow> string" where
  \<open>specificProps_cd lowerName subComponent =
     (if includes_str lowerName ''button'' then
        ''\<newline>'' @
        ''  /** Button variant */\<newline>'' @
        ''  variant?: "default" | "destructive" | "outline" | "secondary" | "ghost" | "link";\<newline>'' @
        ''  \<newline>'' @
        ''  /** Button size */\<newline>'' @
        ''  size?: "default" | "sm" | "lg" | "icon";\<newline>'' @
        ''  \<newline>'' @
        ''  /** Whether the button is disabled */\<newline>'' @
        ''  disabled?: boolean;\<newline>'' @
        ''  \<newline>'' @
        ''  /** Click handler */\<newline>'' @
        ''  onClick?: (event: React.MouseEvent<HTMLButtonElement>) => void;''
      else if includes_str lowerName ''accordion'' then
        (if falsy subComponent \<or> subComponent = Some ''Root'' then
           ''\<newline>'' @
           ''  /** Whether accordion can have multiple items open */\<newline>'' @
           ''  type?: "single" | "multiple";\<newline>'' @
           ''  \<newline>'' @
           ''  /** Default active value */\<newline>'' @
           ''  defaultValue?: string | string[];\<newline>'' @
           ''  \<newline>'' @
           ''  /** Callback when value changes */\<newline>'' @
           ''  onValueChange?: (value: string | string[]) => void;\<newline>'' @
           ''  \<newline>'' @
           ''  /** Whether accordion items are collapsible */\<newline>'' @
           ''  collapsible?: boolean;''
         else if subComponent = Some ''Item'' then
           ''\<newline>'' @
           ''  /** Value of this accordion item */\<newline>'' @
           ''  value: string;\<newline>'' @
           ''  \<newline>'' @
           ''  /** Whether this item is disabled */\<newline>'' @
           ''  disabled?: boolean;''
         else if subComponent = Some ''Trigger'' then
           ''\<newline>'' @
           ''  /** Whether trigger is disabled */\<newline>'' @
           ''  disabled?: boolean;\<newline>'' @
           ''  \<newline>'' @
           ''  /** Accessibility label */\<newline>'' @
           ''  asChild?: boolean;''
         else if subComponent = Some ''Content'' then
           ''\<newline>'' @
           ''  /** Whether to force mounting when closed (for SEO/accessibility) */\<newline>'' @
           ''  forceMount?: boolean;''
         else [])
      else if includes_str lowerName ''dialog'' \<or> includes_str lowerName ''modal'' \<or>
              includes_str lowerName ''drawer'' then
        (if falsy subComponent \<or> subComponent = Some ''Root'' then
           ''\<newline>'' @
           ''  /** Whether the dialog is open */\<newline>'' @
           ''  open?: boolean;\<newline>'' @
           ''  \<newline>'' @
           ''  /** Callback when open state changes */\<newline>'' @
           ''  onOpenChange?: (open: boolean) => void;''
         else if subComponent = Some ''Content'' then
           ''\<newline>'' @
           ''  /** Whether to force mounting when closed */\<newline>'' @
           ''  forceMount?: boolean;\<newline>'' @
           ''  \<newline>'' @
           ''  /** Side from which dialog appears */\<newline>'' @
           ''  side?: "left" | "right" | "top" | "bottom";''
         else [])
      else if includes_str lowerName ''form'' then
        ''\<newline>'' @
        ''  /** Form submission handler */\<newline>'' @
        ''  onSubmit?: React.FormEventHandler<HTMLFormElement>;\<newline>'' @
        ''  \<newline>'' @
        ''  /** Form validation schema */\<newline>'' @
        ''  defaultValues?: Record<string, any>;''
      else if includes_str lowerName ''select'' \<or> includes_str lowerName ''dropdown'' then
        ''\<newline>'' @
        ''  /** Currently selected value */\<newline>'' @
        ''  value?: string | number;\<newline>'' @
        ''  \<newline>'' @
        ''  /** Callback when selection changes */\<newline>'' @
        ''  onValueChange?: (value: string | number) => void;\<newline>'' @
        ''  \<newline>'' @
        ''  /** Placeholder text */\<newline>'' @
        ''  placeholder?: string;''
      else if includes_str lowerName ''input'' then
        ''\<newline>'' @
        ''  /** Input type */\<newline>'' @
        ''  type?: string;\<newline>'' @
        ''  \<newline>'' @
        ''  /** Current input value */\<newline>'' @
        ''  value?: string;\<newline>'' @
        ''  \<newline>'' @
        ''  /** Callback when value changes */\<newline>'' @
        ''  onChange?: React.ChangeEventHandler<HTMLInputElement>;\<newline>'' @
        ''  \<newline>'' @
        ''  /** Placeholder text */\<newline>'' @
        ''  placeholder?: string;''
      else if includes_str lowerName ''card'' then
        ''\<newline>'' @
        ''  /** Whether to show a border */\<newline>'' @
        ''  bordered?: boolean;\<newline>'' @
        ''  \<newline>'' @
        ''  /** Card appearance variant */\<newline>'' @
        ''  variant?: "default" | "secondary" | "outline";''
      else if includes_str lowerName ''not-found'' then
        ''\<newline>'' @
        ''  /** Title to display */\<newline>'' @
        ''  title?: string;\<newline>'' @
        ''  \<newline>'' @
        ''  /** Description message */\<newline>'' @
        ''  description?: string;\<newline>'' @
        ''  \<newline>'' @
        ''  /** URL to redirect to when user clicks "Home" */\<newline>'' @
        ''  homeUrl?: string;\<newline>'' @
        ''  \<newline>'' @
        ''  /** Custom action button text */\<newline>'' @
        ''  buttonText?: string;\<newline>'' @
        ''  \<newline>'' @
        ''  /** Handler for action button */\<newline>'' @
        ''  onAction?: () => void;''
      else [])\<close>

definition createSingleComponentProps :: "ComponentData \<Rightarrow> string option \<Rightarrow> string" where
  \<open>createSingleComponentProps cd subComponent =
     (let lowerName = toLowerCase (componentName cd);
          tag = (case subComponent of None \<Rightarrow> [] | Some sub \<Rightarrow> sub);
          typeName =
            (if falsy subComponent then pascalName cd @ ''Props''
             else pascalName cd @ tag @ ''Props'');
          description =
            (if falsy subComponent then ''Default props interface for '' @ pascalName cd
             else ''Props for '' @ pascalName cd @ '' '' @ tag @ '' sub-component'')
      in ''// '' @
         description @
         ''\<newline>'' @
         ''export interface '' @
         typeName @
         '' {\<newline>'' @
         ''  /** The content to render inside the component */\<newline>'' @
         ''  children?: React.ReactNode;\<newline>'' @
         ''  \<newline>'' @
         ''  /** Additional CSS classes to apply to the component */\<newline>'' @
         ''  className?: string;'' @
         specificProps_cd lowerName subComponent @
         ''\<newline>'' @
         ''  \<newline>'' @
         ''  /** Additional HTML attributes */\<newline>'' @
         ''  [key: string]: any;\<newline>'' @
         ''}'')\<close>

text \<open>
  \<open>createDefaultPropsInterface\<close> of the second extractor: the root declaration, then
  one declaration for each known sub-component.
\<close>

definition createDefaultPropsInterface_cd :: "ComponentData \<Rightarrow> string list" where
  "createDefaultPropsInterface_cd cd =
     (if length (subComponents cd) > 0
      then createSingleComponentProps cd None #
           map (\<lambda>subComponent. createSingleComponentProps cd (Some subComponent)) (subComponents cd)
      else [createSingleComponentProps cd None])"

section \<open>Sub-component deduplication\<close>

text \<open>
  A found declaration: its text and the sub-component it was found for (\<open>None\<close>
  for \<open>null\<close>).
\<close>

record PropCandidate =
  ptext :: string
  subComponent :: "string option"

text \<open>\<^verbatim>\<open>prop.subComponent || 'Main'\<close>: \<open>null\<close> and the empty string both give \<^verbatim>\<open>Main\<close>.\<close>

definition groupOf :: "PropCandidate \<Rightarrow> string" where
  "groupOf prop =
     (case subComponent prop of
        None \<Rightarrow> ''Main''
      | Some sub \<Rightarrow> if sub = [] then ''Main'' else sub)"

text \<open>
  The keys of an object that was filled key by key: the order in which the keys were
  first written, except that keys which are array indices (canonical decimal numerals
  below \<open>2^32 - 1\<close>) come first, in ascending numeric order.  This is the order of
  \<^verbatim>\<open>Object.keys\<close> and \<^verbatim>\<open>Object.entries\<close>.
\<close>

definition insertionOrder :: "string list \<Rightarrow> string list" where
  "insertionOrder keys = foldl (\<lambda>ks k. if k \<in> set ks then ks else ks @ [k]) [] keys"

definition digitsValue :: "string \<Rightarrow> int" where
  "digitsValue s = foldl (\<lambda>n c. 10 * n + ((of_char c :: int) - 48)) 0 s"

definition isArrayIndex :: "string \<Rightarrow> bool" where
  "isArrayIndex s =
     (s \<noteq> [] \<and> list_all isDigit s \<and> (s = ''0'' \<or> hd s \<noteq> CHR ''0'') \<and>
      digitsValue s < 4294967295)"

definition ownKeysOrder :: "string list \<Rightarrow> string list" where
  "ownKeysOrder keys =
     sort_key digitsValue (filter isArrayIndex (insertionOrder keys)) @
     filter (\<lambda>k. \<not> isArrayIndex k) (insertionOrder keys)"

text \<open>
  The rename of \<open>deduplicateAndNameProps\<close>,
  \<^verbatim>\<open>prop.replace(new RegExp(`(type|interface)\\s+${pascalName}Props`), `$1 ${pascalName}${subComponent}Props`)\<close>:
  the leftmost place of the text where the keyword, at least one white-space character
  and the base type name follow one another is rewritten to the keyword, one space and
  the new type name; a text with no such place is returned as it is.  The pattern has
  no anchor, so the place may be anywhere in the text, and nothing says what follows the
  base type name.  The Pascal-case name and the tag are spliced into the pattern and the
  replacement as they are; the model is the program for names and tags made of
  \<^verbatim>\<open>[A-Za-z0-9_]\<close>, which have no special meaning there.
\<close>

definition stripKeyword :: "string \<Rightarrow> (string \<times> string) option" where
  "stripKeyword s =
     (if prefix ''type'' s then Some (''type'', drop 4 s)
      else if prefix ''interface'' s then Some (''interface'', drop 9 s)
      else None)"

definition matchHeader :: "string \<Rightarrow> string \<Rightarrow> (string \<times> string) option" where
  "matchHeader typeName s =
     (case stripKeyword s of
        None \<Rightarrow> None
      | Some (keyword, r) \<Rightarrow>
          (if r \<noteq> [] \<and> isSpace (hd r) \<and> prefix typeName (dropWhile isSpace r)
           then Some (keyword, drop (length typeName) (dropWhile isSpace r))
           else None))"

fun replaceHeader :: "string \<Rightarrow> string \<Rightarrow> string \<Rightarrow> string" where
  "replaceHeader typeName newName [] = []"
| "replaceHeader typeName newName (c # cs) =
     (case matchHeader typeName (c # cs) of
        Some (keyword, rest) \<Rightarrow> keyword @ '' '' @ newName @ rest
      | None \<Rightarrow> c # replaceHeader typeName newName cs)"

text \<open>
  \<open>deduplicateAndNameProps\<close>.  It returns the texts and pushes the tags it met onto
  \<open>componentData.subComponents\<close>; the component data is returned updated.

  The two tables \<open>subComponentCounts\<close> and \<open>propsBySubComponent\<close> are object
  literals.  A tag that names a member of \<^verbatim>\<open>Object.prototype\<close> finds that member in
  \<open>propsBySubComponent\<close> instead of \<open>undefined\<close>, no array is created for it, and
  the call of \<open>push\<close> throws a \<open>TypeError\<close>; by then the tags have been pushed.
  Writing \<^verbatim>\<open>__proto__\<close> into \<open>subComponentCounts\<close> creates no key.
\<close>

definition pushNew :: "string list \<Rightarrow> string list \<Rightarrow> string list" where
  "pushNew subs keys = foldl (\<lambda>acc k. if k \<in> set acc then acc else acc @ [k]) subs keys"

definition deduplicateAndNameProps ::
  "PropCandidate list \<Rightarrow> ComponentData \<Rightarrow> (error + string list) \<times> ComponentData" where
  "deduplicateAndNameProps foundProps cd =
     (if length foundProps \<le> 1 then (Inr (map ptext foundProps), cd)
      else
        (let groups = map groupOf foundProps;
             countKeys = ownKeysOrder (filter (\<lambda>k. k \<noteq> ''__proto__'') groups);
             cd' = cd \<lparr> subComponents :=
                          pushNew (subComponents cd) (filter (\<lambda>key. key \<noteq> ''Main'') countKeys) \<rparr>
         in if list_ex (\<lambda>g. g \<in> set objectPrototypeKeys) groups
            then (Inl (TypeError ''propsBySubComponent[subComponent].push is not a function''), cd')
            else
              (let keys = ownKeysOrder groups;
                   propsOf = (\<lambda>key. map ptext (filter (\<lambda>prop. groupOf prop = key) foundProps))
               in (Inr (concat (map (\<lambda>key.
                          if key = ''Main'' \<or> length keys = 1 then propsOf key
                          else map (replaceHeader (pascalName cd @ ''Props'')
                                                  (pascalName cd @ key @ ''Props''))
                                   (propsOf key)) keys)),
                   cd'))))"

section \<open>Output assembly\<close>

text \<open>
  The document before it is handed to the formatter: the import block, the
  declarations in order, and the export block (empty in \<^verbatim>\<open>get-component-props.ts\<close>,
  which has none).  \<open>rawCode\<close> is the text given to \<open>formatCode\<close>.
\<close>

record OutputDocument =
  importBlock :: string
  declarations :: "string list"
  exportBlock :: string

definition rawCode :: "OutputDocument \<Rightarrow> string" where
  "rawCode doc = importBlock doc @ join ''\<newline>\<newline>'' (declarations doc) @ exportBlock doc"

text \<open>
  \<open>extractAllComponentProps\<close> of \<^verbatim>\<open>get-component-props.ts\<close>: the props of all
  files one after the other, the default interface when there are none, and the default
  interface alone when the file locator throws.
\<close>

definition extractAllComponentProps :: "Collaborators \<Rightarrow> string \<Rightarrow> OutputDocument" where
  "extractAllComponentProps env cname =
     (case findComponentFiles env cname of
        Inl e \<Rightarrow>
          \<lparr> importBlock = ''import * as React from 'react';\<newline>\<newline>'',
            declarations = [createDefaultPropsInterface cname],
            exportBlock = [] \<rparr>
      | Inr files \<Rightarrow>
          (let allProps = concat (map (\<lambda>file. fst (extractPropsFromFile env file cname)) files);
               allProps = (if length allProps = 0
                           then allProps @ [createDefaultPropsInterface cname]
                           else allProps)
           in \<lparr> importBlock = ''import * as React from 'react';\<newline>\<newline>'',
                declarations = allProps,
                exportBlock = [] \<rparr>))"

text \<open>
  \<^verbatim>\<open>R.uniqBy(fn, list)\<close> of Ramda: one pass that keeps an item when the value of
  \<open>fn\<close> on it has not been seen before.
\<close>

fun uniqByFrom :: "('a \<Rightarrow> 'b) \<Rightarrow> 'b list \<Rightarrow> 'a list \<Rightarrow> 'a list" where
  "uniqByFrom fn seen [] = []"
| "uniqByFrom fn seen (x # xs) =
     (if fn x \<in> set seen then uniqByFrom fn seen xs
      else x # uniqByFrom fn (fn x # seen) xs)"

definition uniqBy :: "('a \<Rightarrow> 'b) \<Rightarrow> 'a list \<Rightarrow> 'a list" where
  "uniqBy fn xs = uniqByFrom fn [] xs"

text \<open>\<open>generateImports\<close>; the primitive imports are in the order of the \<open>Map\<close>.\<close>

definition generateImports :: "ComponentData \<Rightarrow> string" where
  \<open>generateImports cd =
     ''import * as React from 'react';\<newline>'' @
     (if length (primitiveImports cd) > 0
      then ''\<newline>// Import primitive components used in types\<newline>'' @
           concat (map (\<lambda>(primitiveName, packageName).
                          ''import * as '' @ primitiveName @ '' from "'' @ packageName @ ''";\<newline>'')
                       (primitiveImports cd)) @
           ''\<newline>''
      else [])\<close>

text \<open>\<open>generateTypeExports\<close>; \<^verbatim>\<open>slice(0, -2)\<close> drops the last comma and line break.\<close>

definition generateTypeExports :: "ComponentData \<Rightarrow> string" where
  "generateTypeExports cd =
     (if length (subComponents cd) = 0 then []
      else
        (let exports = ''\<newline>// Export all component types\<newline>export type {\<newline>'' @
                       ''  '' @ pascalName cd @ ''Props,\<newline>'' @
                       concat (map (\<lambda>sub. ''  '' @ pascalName cd @ sub @ ''Props,\<newline>'')
                                   (subComponents cd))
         in take (length exports - 2) exports @ ''\<newline>};''))"

text \<open>
  The collaborators of the second extractor.  Both work on the shared component data
  and return it updated: \<open>findComponentFiles_cd\<close> is the file locator, which also
  collects dependencies and sub-components, and \<open>extractPropsFromFile_cd\<close> is the
  extraction from one file, which rests on ts-morph.
\<close>

record Collaborators_cd =
  findComponentFiles_cd :: "ComponentData \<Rightarrow> (error + string list) \<times> ComponentData"
  extractPropsFromFile_cd :: "string \<Rightarrow> ComponentData \<Rightarrow> (error + string list) \<times> ComponentData"

text \<open>The loop over the files: a file whose extraction throws is skipped.\<close>

fun processFiles :: "Collaborators_cd \<Rightarrow> string list \<Rightarrow> ComponentData \<Rightarrow> string list
    \<Rightarrow> string list \<times> ComponentData" where
  "processFiles env [] cd allProps = (allProps, cd)"
| "processFiles env (file # files) cd allProps =
     (case extractPropsFromFile_cd env file cd of
        (Inl e, cd') \<Rightarrow> processFiles env files cd' allProps
      | (Inr fileProps, cd') \<Rightarrow> processFiles env files cd' (allProps @ fileProps))"

text \<open>
  \<open>extractComponentProps\<close>: the merged props, or the default interfaces when there
  are none, go through \<open>uniqBy\<close> with the identity; when the file locator throws, the
  default interfaces are the whole document.  Between locating the files and the loop
  the function installs missing dependencies; that step catches its own failures and
  touches nothing the document is made of, and is left out here.
\<close>

definition extractComponentProps :: "Collaborators_cd \<Rightarrow> ComponentData \<Rightarrow> OutputDocument" where
  "extractComponentProps env cd =
     (case findComponentFiles_cd env cd of
        (Inl e, cd1) \<Rightarrow>
          \<lparr> importBlock = ''import * as React from 'react';\<newline>\<newline>'',
            declarations = createDefaultPropsInterface_cd cd1,
            exportBlock = [] \<rparr>
      | (Inr files, cd1) \<Rightarrow>
          (let (allProps, cd2) = processFiles env files cd1 [];
               allProps = (if length allProps = 0
                           then allProps @ createDefaultPropsInterface_cd cd2
                           else allProps);
               uniqueProps = uniqBy (\<lambda>x. x) allProps
           in \<lparr> importBlock = generateImports cd2,
                declarations = uniqueProps,
                exportBlock = generateTypeExports cd2 \<rparr>))"

section \<open>What a candidate becomes\<close>

text \<open>
  The text \<open>deduplicateAndNameProps\<close> gives for one candidate when the list has more
  than one group: a candidate of the group \<^verbatim>\<open>Main\<close> keeps its text, any other
  candidate has its text passed through the rename with its own tag.  The function
  itself works group by group; that it amounts to this candidate-wise description is
  proved below.
\<close>

definition renderCandidate :: "string \<Rightarrow> PropCandidate \<Rightarrow> string" where
  "renderCandidate pname prop =
     (if groupOf prop = ''Main'' then ptext prop
      else replaceHeader (pname @ ''Props'') (pname @ groupOf prop @ ''Props'') (ptext prop))"

section \<open>The files of one run\<close>

text \<open>
  What the files of one run of \<open>extractComponentProps\<close> give, file by file and in the
  order of the loop: each file is read with the component data as the files before it
  left them.  A file whose extraction throws contributes nothing to the merged list.
\<close>

fun fileResults :: "Collaborators_cd \<Rightarrow> string list \<Rightarrow> ComponentData \<Rightarrow> (error + string list) list" where
  "fileResults env [] cd = []"
| "fileResults env (f # files) cd =
     (case extractPropsFromFile_cd env f cd of (r, cd') \<Rightarrow> r # fileResults env files cd')"

definition candidatesOf :: "error + string list \<Rightarrow> string list" where
  "candidatesOf r = (case r of Inl e \<Rightarrow> [] | Inr fileProps \<Rightarrow> fileProps)"

section \<open>The shape of a synthetic declaration\<close>

text \<open>
  A text is a props interface for a type name when it is a comment line, then
  \<^verbatim>\<open>export interface\<close> with that name, the members \<^verbatim>\<open>children\<close> and
  \<^verbatim>\<open>className\<close>, possibly further members, the index signature and the closing
  brace, possibly followed by a note.
\<close>

definition isPropsInterface :: "string \<Rightarrow> string \<Rightarrow> bool" where
  "isPropsInterface typeName decl =
     (\<exists>comment specific trailer.
        decl =
          ''// '' @ comment @ ''\<newline>'' @
          ''export interface '' @ typeName @ '' {\<newline>'' @
          ''  /** The content to render inside the component */\<newline>'' @
          ''  children?: React.ReactNode;\<newline>'' @
          ''  \<newline>'' @
          ''  /** Additional CSS classes to apply to the component */\<newline>'' @
          ''  className?: string;'' @
          specific @
          ''\<newline>'' @
          ''  \<newline>'' @
          ''  /** Additional HTML attributes */\<newline>'' @
          ''  [key: string]: any;\<newline>'' @
          ''}'' @ trailer)"

section \<open>Occurrences of the header pattern\<close>

text \<open>
  The pattern \<^verbatim>\<open>(type|interface)\s+<typeName>\<close> occurs in a text after \<open>pre\<close>, with
  the keyword as its group and \<open>rest\<close> after it, when the text is \<open>pre\<close>, the keyword,
  at least one white-space character, the type name and \<open>rest\<close>.
\<close>

definition headerOccurs :: "string \<Rightarrow> string \<Rightarrow> string \<Rightarrow> string \<Rightarrow> string \<Rightarrow> bool" where
  "headerOccurs typeName t pre keyword rest =
     ((keyword = ''type'' \<or> keyword = ''interface'') \<and>
      (\<exists>w ws. isSpace w \<and> list_all isSpace ws \<and> t = pre @ keyword @ w # ws @ typeName @ rest))"

section \<open>Names shown to the Babel visitors\<close>

text \<open>
  The name a visitor of \<open>extractPropsWithBabel\<close> reads from a node
  (\<^verbatim>\<open>path.node.id.name\<close>, or \<^verbatim>\<open>declaration.id.name\<close> of an export), empty when it
  reads none.
\<close>

fun babelNodeName :: "babel_node \<Rightarrow> string" where
  "babelNodeName (InterfaceNode name s e) = name"
| "babelNodeName (TypeAliasNode name s e) = name"
| "babelNodeName (ExportNamedNode (Some (TSInterfaceDeclaration name)) s e) = name"
| "babelNodeName (ExportNamedNode (Some (TSTypeAliasDeclaration name)) s e) = name"
| "babelNodeName node = []"

section \<open>Sample inputs\<close>

text \<open>The component data of \<^verbatim>\<open>not-found\<close> and of \<^verbatim>\<open>card\<close>, before any file is read.\<close>

definition cd_notFound :: ComponentData where
  "cd_notFound =
     \<lparr> componentName = ''not-found'', normalizedName_cd = ''not-found'',
       pascalName = ''NotFound'', subComponents = [], dependencies = [],
       primitiveImports = [] \<rparr>"

definition cd_card :: ComponentData where
  "cd_card =
     \<lparr> componentName = ''card'', normalizedName_cd = ''card'',
       pascalName = ''Card'', subComponents = [], dependencies = [],
       primitiveImports = [] \<rparr>"

text \<open>
  A run of the first extractor in which ts-morph cannot load the file, Babel rejects
  the text, and the interface pattern has one match.
\<close>

definition env_regexOnly :: Collaborators where
  "env_regexOnly =
     \<lparr> findComponentFiles = (\<lambda>name. Inr [''foo.tsx'']),
       addSourceFileAtPath = (\<lambda>file. Inl (Error ''File not found'')),
       readFile = (\<lambda>file. Inr ''interface FooProps { a: string }''),
       babelTraverse = (\<lambda>code. Inl (Error ''Unexpected token'')),
       interfaceRegex = (\<lambda>code. [(''interface FooProps { a: string }'', ''FooProps'')]),
       typeRegex = (\<lambda>code. []),
       componentPropsRegex = (\<lambda>code. []) \<rparr>"

text \<open>A run in which the one file found declares nothing that any tier picks up.\<close>

definition env_nothingFound :: Collaborators where
  "env_nothingFound =
     \<lparr> findComponentFiles = (\<lambda>name. Inr [''not-found-default.tsx'']),
       addSourceFileAtPath =
         (\<lambda>file. Inr \<lparr> interfaces = [(''Not'', ''export interface Not'')], typeAliases = [],
                        exportedDeclarations = [(''Not'', [''export interface Not''])],
                        typeReferences = [''React.ReactNode''] \<rparr>),
       readFile = (\<lambda>file. Inr ''export interface Not-foundProps { }''),
       babelTraverse = (\<lambda>code. Inl (Error ''Unexpected token'')),
       interfaceRegex = (\<lambda>code. []),
       typeRegex = (\<lambda>code. []),
       componentPropsRegex = (\<lambda>code. []) \<rparr>"

text \<open>A run in which two files declare the same type alias, found by ts-morph.\<close>

definition env_twoFiles :: Collaborators where
  "env_twoFiles =
     \<lparr> findComponentFiles = (\<lambda>name. Inr [''foo.tsx'', ''foo/index.tsx'']),
       addSourceFileAtPath =
         (\<lambda>file. Inr \<lparr> interfaces = [],
                        typeAliases = [(''FooProps'', ''type FooProps = { a: string };'')],
                        exportedDeclarations = [], typeReferences = [] \<rparr>),
       readFile = (\<lambda>file. Inr ''type FooProps = { a: string };''),
       babelTraverse = (\<lambda>code. Inr []),
       interfaceRegex = (\<lambda>code. []),
       typeRegex = (\<lambda>code. []),
       componentPropsRegex = (\<lambda>code. []) \<rparr>"

text \<open>The same two situations for the second extractor.\<close>

definition env_cd_nothingFound :: Collaborators_cd where
  "env_cd_nothingFound =
     \<lparr> findComponentFiles_cd = (\<lambda>cd. (Inr [''not-found.tsx''], cd)),
       extractPropsFromFile_cd = (\<lambda>file cd. (Inr [], cd)) \<rparr>"

definition env_cd_twoFiles :: Collaborators_cd where
  "env_cd_twoFiles =
     \<lparr> findComponentFiles_cd = (\<lambda>cd. (Inr [''foo.tsx'', ''foo/index.tsx''], cd)),
       extractPropsFromFile_cd = (\<lambda>file cd. (Inr [''type FooProps = { a: string };''], cd)) \<rparr>"

text \<open>
  Three candidates of a card as the extraction makes them: two aliases made up for two
  type references to the same primitive part \<^verbatim>\<open>Item\<close>, and the interface of the
  root.  And two candidates where the one for \<^verbatim>\<open>Item\<close> already has its own name and
  mentions the base name in a comment of its body.
\<close>

definition candidates_sameTag :: "PropCandidate list" where
  "candidates_sameTag =
     [\<lparr> ptext = ''// From React type reference\<newline>type CardItemProps = React.ComponentProps<typeof CardPrimitive.Item>;'',
         subComponent = Some ''Item'' \<rparr>,
      \<lparr> ptext = ''// From React type reference\<newline>type CardItemProps = React.ComponentPropsWithoutRef<typeof CardPrimitive.Item>;'',
         subComponent = Some ''Item'' \<rparr>,
      \<lparr> ptext = ''interface CardProps { c: boolean }'', subComponent = None \<rparr>]"

definition candidates_bodyMention :: "PropCandidate list" where
  "candidates_bodyMention =
     [\<lparr> ptext = ''interface CardItemProps {\<newline>  // same as type CardProps\<newline>  x: number;\<newline>}'',
         subComponent = Some ''Item'' \<rparr>,
      \<lparr> ptext = ''type CardProps = { c: boolean };'', subComponent = None \<rparr>]"

text \<open>
  The declaration texts the two generators give for \<^verbatim>\<open>not-found\<close>, written out.
\<close>

definition notFound_declaration :: string where
  \<open>notFound_declaration =
     ''// Default props interface based on common Shadcn patterns\<newline>'' @
     ''export interface NotFoundProps {\<newline>'' @
     ''  /** The content to render inside the component */\<newline>'' @
     ''  children?: React.ReactNode;\<newline>'' @
     ''  \<newline>'' @
     ''  /** Additional CSS classes to apply to the component */\<newline>'' @
     ''  className?: string;\<newline>'' @
     ''  \<newline>'' @
     ''  /** Additional HTML attributes */\<newline>'' @
     ''  [key: string]: any;\<newline>'' @
     ''}\<newline>'' @
     ''\<newline>'' @
     ''// Note: This is a suggested structure based on common Shadcn component patterns.\<newline>'' @
     ''// You should review the component implementation to determine the actual props it accepts.''\<close>

definition notFound_declaration_cd :: string where
  \<open>notFound_declaration_cd =
     ''// Default props interface for NotFound\<newline>'' @
     ''export interface NotFoundProps {\<newline>'' @
     ''  /** The content to render inside the component */\<newline>'' @
     ''  children?: React.ReactNode;\<newline>'' @
     ''  \<newline>'' @
     ''  /** Additional CSS classes to apply to the component */\<newline>'' @
     ''  className?: string;\<newline>'' @
     ''  /** Title to display */\<newline>'' @
     ''  title?: string;\<newline>'' @
     ''  \<newline>'' @
     ''  /** Description message */\<newline>'' @
     ''  description?: string;\<newline>'' @
     ''  \<newline>'' @
     ''  /** URL to redirect to when user clicks "Home" */\<newline>'' @
     ''  homeUrl?: string;\<newline>'' @
     ''  \<newline>'' @
     ''  /** Custom action button text */\<newline>'' @
     ''  buttonText?: string;\<newline>'' @
     ''  \<newline>'' @
     ''  /** Handler for action button */\<newline>'' @
     ''  onAction?: () => void;\<newline>'' @
     ''  \<newline>'' @
     ''  /** Additional HTML attributes */\<newline>'' @
     ''  [key: string]: any;\<newline>'' @
     ''}''\<close>

text \<open>
  Three candidates of a card: the alias the extraction makes up for a type reference to
  \<^verbatim>\<open>Item\<close>, an exported interface under the base name that follows a comment
  line, with the tag \<^verbatim>\<open>Header\<close>, and the interface of the root.
\<close>

definition candidates_commentLine :: "PropCandidate list" where
  "candidates_commentLine =
     [\<lparr> ptext = ''// From React type reference\<newline>type CardItemProps = React.ComponentProps<typeof CardPrimitive.Item>;'',
         subComponent = Some ''Item'' \<rparr>,
      \<lparr> ptext = ''// props of the type header\<newline>export interface  CardProps {\<newline>  title: string;\<newline>}'',
         subComponent = Some ''Header'' \<rparr>,
      \<lparr> ptext = ''interface CardProps { c: boolean }'', subComponent = None \<rparr>]"

section \<open>Properties of the name normalizer\<close>

lemma toLowerChar_no_lower_case: "\<not> hasLowerCase (toLowerChar c)"
proof (cases "hasLowerCase c")
  case True
  then have "(of_char c :: nat) + 32 < 256"
    by (auto simp: hasLowerCase_def isUpper_def)
  then have "(of_char (char_of ((of_char c :: nat) + 32)) :: nat) = of_char c + 32"
    by simp
  with True show ?thesis
    by (auto simp: toLowerChar_def hasLowerCase_def isUpper_def)
next
  case False
  then show ?thesis by (simp add: toLowerChar_def)
qed

lemma toLowerChar_not_upper: "\<not> isUpper (toLowerChar c)"
  using toLowerChar_no_lower_case [of c] by (simp add: hasLowerCase_def)

lemma toLowerChar_idem: "toLowerChar (toLowerChar c) = toLowerChar c"
  using toLowerChar_no_lower_case [of c] by (simp add: toLowerChar_def [of "toLowerChar c"])

lemma toLowerCase_idem: "toLowerCase (toLowerCase s) = toLowerCase s"
  by (simp add: toLowerCase_def toLowerChar_idem)

text \<open>The parts that \<open>pascalCaseName\<close> capitalizes are made of \<^verbatim>\<open>[a-zA-Z0-9]\<close>.\<close>

lemma splitOn_parts: "\<forall>part \<in> set (splitOn sep s). \<forall>c \<in> set part. \<not> sep c"
  by (induction s) (auto split: list.splits)

lemma kebabReplace_no_upper: "\<forall>c \<in> set s. \<not> isUpper c \<Longrightarrow> kebabReplace s = s"
  by (induction s rule: kebabReplace.induct) auto

lemma kebabReplace_toLowerCase: "kebabReplace (toLowerCase s) = toLowerCase s"
  by (rule kebabReplace_no_upper) (simp add: toLowerCase_def toLowerChar_not_upper)

lemma normalizedName_twice:
  "normalizedName (normalizedName name) = normalizedName name"
  by (simp add: normalizedName_def kebabReplace_toLowerCase toLowerCase_idem)

text \<open>
  C7.  Kebab-case normalization is idempotent: normalizing a key that is already
  normalized (a separator put at each lower-to-upper boundary, then everything
  lower-cased) gives the same key back.
\<close>

theorem normalizedName_idempotent:
  "normalizedName (normalizedName name) = normalizedName name"
  by (rule normalizedName_twice)

theorem normalizedName_idempotent_witness:
  "normalizedName ''navigationMenu'' = ''navigation-menu'' \<and>
   normalizedName ''navigation-menu'' = ''navigation-menu''"
proof -
  have "normalizedName ''navigationMenu'' = ''navigation-menu''"
    by code_simp
  with normalizedName_idempotent [of "''navigationMenu''"] show ?thesis
    by simp
qed

text \<open>
  C6, as amended.  An empty identifier makes \<open>extractComponentName\<close> and the guard of
  \<open>main\<close> throw; a non-empty one makes both return, \<open>extractComponentName\<close> being a
  function of its argument alone.  \<open>normalizeComponentName\<close> returns for every input
  and leaves one trace besides its result: the entry it writes into
  \<open>originalComponentNames\<close>.
\<close>

theorem name_normalizer_outcomes:
  "extractComponentName [] = Inl (Error ''No component name or URL provided'') \<and>
   main_guard [] = Inl (Error ''No component name or URL provided'') \<and>
   (input \<noteq> [] \<longrightarrow> (\<exists>name. extractComponentName input = Inr name) \<and> main_guard input = Inr input) \<and>
   (\<exists>cd. normalizeComponentName paramCase pascalCase names input =
            (cd, names(componentName cd \<mapsto> input)))"
  by (simp add: extractComponentName_def main_guard_def normalizeComponentName_def Let_def)

theorem name_normalizer_outcomes_witness:
  "extractComponentName ''tabs'' = Inr ''tabs'' \<and> main_guard ''tabs'' = Inr ''tabs'' \<and>
   snd (normalizeComponentName (\<lambda>s. s) (\<lambda>s. s) Map.empty ''tabs'') ''tabs'' = Some ''tabs''"
  using name_normalizer_outcomes [of "''tabs''" "\<lambda>s. s" "\<lambda>s. s" Map.empty]
  by (auto simp: extractComponentName_def main_guard_def normalizeComponentName_def Let_def)

text \<open>
  The claim as first stated says that the normalizer has no side effect and fails on the
  empty identifier.  \<open>normalizeComponentName\<close> changes the map on \<^verbatim>\<open>tabs\<close>, and
  returns component data for the empty identifier.
\<close>

theorem normalizeComponentName_counterexample:
  "snd (normalizeComponentName (\<lambda>s. s) (\<lambda>s. s) Map.empty ''tabs'') \<noteq> Map.empty \<and>
   componentName (fst (normalizeComponentName (\<lambda>s. s) (\<lambda>s. s) Map.empty [])) = []"
  by (simp add: normalizeComponentName_def Let_def fun_eq_iff)

section \<open>Properties of the registry lookup\<close>

lemma getComponentDependencies_kebab:
  "getComponentDependencies (normalizedName name) = getComponentDependencies name"
  by (simp add: getComponentDependencies_def normalizedName_twice)

lemma getComponentDependencies_None_iff:
  "getComponentDependencies name = None \<longleftrightarrow>
     normalizedName name \<notin> fst ` set componentRegistry \<and>
     normalizedName name \<notin> set objectPrototypeKeys"
  by (auto simp: getComponentDependencies_def Let_def map_of_eq_None_iff[symmetric]
           split: option.splits)

text \<open>
  C10.  The lookup does not depend on the casing of the name
  (\<open>getComponentDependencies_kebab\<close>), but it is not \<open>null\<close> exactly for the names
  outside the registry: \<^verbatim>\<open>constructor\<close> is no key of the registry, and the lookup
  returns the member of \<^verbatim>\<open>Object.prototype\<close> of that name.
\<close>

theorem getComponentDependencies_constructor:
  "getComponentDependencies ''constructor'' = Some (Inherited ''constructor'') \<and>
   map_of componentRegistry (normalizedName ''constructor'') = None"
  by code_simp

section \<open>Properties of the strategy chain\<close>

text \<open>
  C2.  The chain calls the ts-morph tier first, the Babel tier only when that gave
  nothing, the pattern tier only when both gave nothing, and returns what the last tier
  called gave.  A tier whose parser or file read throws gives the empty list.
\<close>

theorem extractPropsFromFile_chain:
  "extractPropsFromFile env file cname =
     (if extractPropsWithTsMorph env file cname \<noteq> []
      then (extractPropsWithTsMorph env file cname, [TsMorph])
      else if extractPropsWithBabel env file cname \<noteq> []
      then (extractPropsWithBabel env file cname, [TsMorph, Babel])
      else (extractPropsWithRegex env file cname, [TsMorph, Babel, Regex])) \<and>
   (\<forall>e. addSourceFileAtPath env file = Inl e \<longrightarrow> extractPropsWithTsMorph env file cname = []) \<and>
   (\<forall>e. readFile env file = Inl e \<longrightarrow>
        extractPropsWithBabel env file cname = [] \<and> extractPropsWithRegex env file cname = []) \<and>
   (\<forall>code e. readFile env file = Inr code \<longrightarrow> babelTraverse env code = Inl e \<longrightarrow>
        extractPropsWithBabel env file cname = [])"
  by (simp add: extractPropsFromFile_def extractPropsWithTsMorph_def extractPropsWithBabel_def
        extractPropsWithRegex_def)

theorem extractPropsFromFile_chain_witness:
  "extractPropsFromFile env_regexOnly ''foo.tsx'' ''foo'' =
     ([''interface FooProps { a: string }''], [TsMorph, Babel, Regex])"
proof -
  have p: "isPropsType ''FooProps'' ''foo''"
    by code_simp
  have "extractPropsWithTsMorph env_regexOnly ''foo.tsx'' ''foo'' = []"
    by (simp add: extractPropsWithTsMorph_def env_regexOnly_def)
  moreover have "extractPropsWithBabel env_regexOnly ''foo.tsx'' ''foo'' = []"
    by (simp add: extractPropsWithBabel_def env_regexOnly_def)
  moreover have "extractPropsWithRegex env_regexOnly ''foo.tsx'' ''foo'' =
      [''interface FooProps { a: string }'']"
    using p by (simp add: extractPropsWithRegex_def env_regexOnly_def)
  ultimately show ?thesis
    using extractPropsFromFile_chain [of env_regexOnly "''foo.tsx''" "''foo''"] by simp
qed

section \<open>Properties of the pipelines\<close>

lemma uniqByFrom_id:
  "distinct (uniqByFrom (\<lambda>x. x) seen xs) \<and> set (uniqByFrom (\<lambda>x. x) seen xs) = set xs - set seen"
  by (induction xs arbitrary: seen) auto

lemma distinct_uniqBy: "distinct (uniqBy (\<lambda>x. x) xs)"
  by (simp add: uniqBy_def uniqByFrom_id)

lemma set_uniqBy: "set (uniqBy (\<lambda>x. x) xs) = set xs"
  by (simp add: uniqBy_def uniqByFrom_id)

lemma uniqBy_Cons: "\<exists>ys. uniqBy (\<lambda>x. x) (x # xs) = x # ys"
  by (simp add: uniqBy_def)

lemma count_list_distinct: "distinct xs \<Longrightarrow> x \<in> set xs \<Longrightarrow> count_list xs x = 1"
  by (induction xs) auto

lemma createDefaultPropsInterface_cd_Cons:
  "\<exists>ys. createDefaultPropsInterface_cd cd = createSingleComponentProps cd None # ys"
  by (simp add: createDefaultPropsInterface_cd_def)

lemma length_fileResults: "length (fileResults env files cd) = length files"
  by (induction files arbitrary: cd) (auto split: prod.splits)

lemma processFiles_fileResults:
  "fst (processFiles env files cd acc) = acc @ concat (map candidatesOf (fileResults env files cd))"
proof (induction files arbitrary: cd acc)
  case Nil
  then show ?case by simp
next
  case (Cons f files)
  obtain r cd' where step: "extractPropsFromFile_cd env f cd = (r, cd')"
    by (cases "extractPropsFromFile_cd env f cd")
  show ?case
    by (cases r) (simp_all add: step Cons.IH candidatesOf_def)
qed

lemma count_list_concat_ge:
  assumes "i < j" "j < length rs" "d \<in> set (g (rs ! i))" "d \<in> set (g (rs ! j))"
  shows "2 \<le> count_list (concat (map g rs)) d"
proof -
  have i: "i < length rs" using assms(1,2) by simp
  have one: "1 \<le> count_list xs d" if "d \<in> set xs" for xs :: "'b list"
  proof -
    from that have "count_list xs d \<noteq> 0" by (simp add: count_list_0_iff)
    then show ?thesis by simp
  qed
  have rs: "rs = take i rs @ rs ! i # drop (Suc i) rs"
    using i by (rule id_take_nth_drop)
  have j': "j - Suc i < length (drop (Suc i) rs)" using assms(1,2) by simp
  have dj: "drop (Suc i) rs ! (j - Suc i) = rs ! j" using assms(1,2) by simp
  have tl: "drop (Suc i) rs = take (j - Suc i) (drop (Suc i) rs) @ rs ! j # drop (Suc (j - Suc i)) (drop (Suc i) rs)"
    using id_take_nth_drop [OF j'] dj by simp
  have "count_list (concat (map g rs)) d =
      count_list (concat (map g (take i rs))) d + count_list (g (rs ! i)) d +
      count_list (concat (map g (drop (Suc i) rs))) d"
    by (subst rs) simp
  moreover have "count_list (concat (map g (drop (Suc i) rs))) d \<ge> count_list (g (rs ! j)) d"
    by (subst tl) simp
  ultimately show ?thesis using one [OF assms(3)] one [OF assms(4)] by linarith
qed

lemma createDefaultPropsInterface_shape:
  "isPropsInterface (pascalCaseName cname @ ''Props'') (createDefaultPropsInterface cname)"
proof -
  have "createDefaultPropsInterface cname =
          ''// '' @ ''Default props interface based on common Shadcn patterns'' @ ''\<newline>'' @
          ''export interface '' @ (pascalCaseName cname @ ''Props'') @ '' {\<newline>'' @
          ''  /** The content to render inside the component */\<newline>'' @
          ''  children?: React.ReactNode;\<newline>'' @
          ''  \<newline>'' @
          ''  /** Additional CSS classes to apply to the component */\<newline>'' @
          ''  className?: string;'' @
          specificProps cname @
          ''\<newline>'' @
          ''  \<newline>'' @
          ''  /** Additional HTML attributes */\<newline>'' @
          ''  [key: string]: any;\<newline>'' @
          ''}'' @
          ''\<newline>\<newline>// Note: This is a suggested structure based on common Shadcn component patterns.\<newline>// You should review the component implementation to determine the actual props it accepts.''"
    by (simp add: createDefaultPropsInterface_def)
  then show ?thesis unfolding isPropsInterface_def by blast
qed

lemma createSingleComponentProps_shape:
  "isPropsInterface
     (if falsy sub then pascalName c @ ''Props'' else pascalName c @ the sub @ ''Props'')
     (createSingleComponentProps c sub)"
proof -
  let ?typeName = "if falsy sub then pascalName c @ ''Props'' else pascalName c @ the sub @ ''Props''"
  let ?description = "if falsy sub then ''Default props interface for '' @ pascalName c
       else ''Props for '' @ pascalName c @ '' '' @ the sub @ '' sub-component''"
  have "createSingleComponentProps c sub =
          ''// '' @ ?description @ ''\<newline>'' @
          ''export interface '' @ ?typeName @ '' {\<newline>'' @
          ''  /** The content to render inside the component */\<newline>'' @
          ''  children?: React.ReactNode;\<newline>'' @
          ''  \<newline>'' @
          ''  /** Additional CSS classes to apply to the component */\<newline>'' @
          ''  className?: string;'' @
          specificProps_cd (toLowerCase (componentName c)) sub @
          ''\<newline>'' @
          ''  \<newline>'' @
          ''  /** Additional HTML attributes */\<newline>'' @
          ''  [key: string]: any;\<newline>'' @
          ''}'' @ []"
    by (cases sub) (simp_all add: createSingleComponentProps_def Let_def falsy_def)
  then show ?thesis unfolding isPropsInterface_def by blast
qed

lemma createDefaultPropsInterface_cd_shape:
  "d \<in> set (createDefaultPropsInterface_cd c) \<Longrightarrow> \<exists>typeName. isPropsInterface typeName d"
  using createSingleComponentProps_shape [of _ c]
  by (auto simp: createDefaultPropsInterface_cd_def split: if_splits)

lemma uniqBy_hd: "xs \<noteq> [] \<Longrightarrow> hd (uniqBy (\<lambda>x. x) xs) = hd xs"
  by (cases xs) (simp_all add: uniqBy_def)

lemma createDefaultPropsInterface_cd_hd:
  "createDefaultPropsInterface_cd c \<noteq> [] \<and>
   hd (createDefaultPropsInterface_cd c) = createSingleComponentProps c None"
  by (simp add: createDefaultPropsInterface_cd_def)

lemma extractAllComponentProps_nonempty:
  "declarations (extractAllComponentProps env cname) \<noteq> []"
  by (simp add: extractAllComponentProps_def Let_def split: sum.splits)

lemma extractComponentProps_nonempty:
  "declarations (extractComponentProps env cd) \<noteq> []"
proof -
  have ne: "uniqBy (\<lambda>x. x) xs \<noteq> []" if "xs \<noteq> []" for xs :: "string list"
    using that uniqBy_Cons [of "hd xs" "tl xs"] by (cases xs) auto
  have d: "createDefaultPropsInterface_cd c \<noteq> []" for c
    using createDefaultPropsInterface_cd_Cons [of c] by auto
  show ?thesis
    by (auto simp: extractComponentProps_def Let_def d ne split: prod.splits sum.splits)
qed

text \<open>
  C1.  Both pipelines always return at least one declaration.  What the synthetic
  default generator makes is a props interface: \<^verbatim>\<open>export interface\<close> under the
  Pascal-case name with \<^verbatim>\<open>Props\<close>, with the members \<^verbatim>\<open>children\<close> and
  \<^verbatim>\<open>className\<close> and the index signature.  When the file locator throws, or when
  the files of the run give no candidate, the declarations of the document are those of
  the generator: the one default interface in the first extractor; in the second, the
  default interfaces for the component data as the files of the run left it, each of
  them a props interface, the root interface first.
\<close>

theorem synthetic_fallback:
  "declarations (extractAllComponentProps env cname) \<noteq> [] \<and>
   declarations (extractComponentProps env' cd) \<noteq> [] \<and>
   isPropsInterface (pascalCaseName cname @ ''Props'') (createDefaultPropsInterface cname) \<and>
   (\<forall>c. isPropsInterface (pascalName c @ ''Props'') (createSingleComponentProps c None)) \<and>
   (\<forall>e. findComponentFiles env cname = Inl e \<longrightarrow>
      declarations (extractAllComponentProps env cname) = [createDefaultPropsInterface cname]) \<and>
   (\<forall>files. findComponentFiles env cname = Inr files \<longrightarrow>
      (\<forall>file \<in> set files. fst (extractPropsFromFile env file cname) = []) \<longrightarrow>
      declarations (extractAllComponentProps env cname) = [createDefaultPropsInterface cname]) \<and>
   (\<forall>e cd1. findComponentFiles_cd env' cd = (Inl e, cd1) \<longrightarrow>
      declarations (extractComponentProps env' cd) = createDefaultPropsInterface_cd cd1 \<and>
      hd (declarations (extractComponentProps env' cd)) = createSingleComponentProps cd1 None \<and>
      (\<forall>d \<in> set (declarations (extractComponentProps env' cd)). \<exists>typeName. isPropsInterface typeName d)) \<and>
   (\<forall>files cd1 cd2. findComponentFiles_cd env' cd = (Inr files, cd1) \<longrightarrow>
      (\<forall>r \<in> set (fileResults env' files cd1). candidatesOf r = []) \<longrightarrow>
      cd2 = snd (processFiles env' files cd1 []) \<longrightarrow>
      declarations (extractComponentProps env' cd) =
        uniqBy (\<lambda>x. x) (createDefaultPropsInterface_cd cd2) \<and>
      hd (declarations (extractComponentProps env' cd)) = createSingleComponentProps cd2 None \<and>
      (\<forall>d \<in> set (declarations (extractComponentProps env' cd)). \<exists>typeName. isPropsInterface typeName d))"
proof (intro conjI allI impI ballI)
  show "declarations (extractAllComponentProps env cname) \<noteq> []"
    by (rule extractAllComponentProps_nonempty)
  show "declarations (extractComponentProps env' cd) \<noteq> []"
    by (rule extractComponentProps_nonempty)
  show "isPropsInterface (pascalCaseName cname @ ''Props'') (createDefaultPropsInterface cname)"
    by (rule createDefaultPropsInterface_shape)
  show "isPropsInterface (pascalName c @ ''Props'') (createSingleComponentProps c None)" for c
    using createSingleComponentProps_shape [of None c] by (simp add: falsy_def)
next
  fix e assume "findComponentFiles env cname = Inl e"
  then show "declarations (extractAllComponentProps env cname) = [createDefaultPropsInterface cname]"
    by (simp add: extractAllComponentProps_def)
next
  fix files
  assume "findComponentFiles env cname = Inr files"
    and "\<forall>file \<in> set files. fst (extractPropsFromFile env file cname) = []"
  then show "declarations (extractAllComponentProps env cname) = [createDefaultPropsInterface cname]"
    by (simp add: extractAllComponentProps_def Let_def)
next
  fix e cd1 assume f: "findComponentFiles_cd env' cd = (Inl e, cd1)"
  then show d: "declarations (extractComponentProps env' cd) = createDefaultPropsInterface_cd cd1"
    by (simp add: extractComponentProps_def)
  show "hd (declarations (extractComponentProps env' cd)) = createSingleComponentProps cd1 None"
    by (simp add: d createDefaultPropsInterface_cd_hd)
  fix x assume "x \<in> set (declarations (extractComponentProps env' cd))"
  then show "\<exists>typeName. isPropsInterface typeName x"
    unfolding d by (rule createDefaultPropsInterface_cd_shape)
next
  fix files cd1 cd2
  assume f: "findComponentFiles_cd env' cd = (Inr files, cd1)"
    and z: "\<forall>r \<in> set (fileResults env' files cd1). candidatesOf r = []"
    and c: "cd2 = snd (processFiles env' files cd1 [])"
  have "fst (processFiles env' files cd1 []) = []"
    using z by (simp add: processFiles_fileResults)
  with c have p: "processFiles env' files cd1 [] = ([], cd2)"
    by (cases "processFiles env' files cd1 []") auto
  show d: "declarations (extractComponentProps env' cd) =
        uniqBy (\<lambda>x. x) (createDefaultPropsInterface_cd cd2)"
    using f by (simp add: extractComponentProps_def p)
  show "hd (declarations (extractComponentProps env' cd)) = createSingleComponentProps cd2 None"
    by (simp add: d uniqBy_hd createDefaultPropsInterface_cd_hd)
  fix x assume "x \<in> set (declarations (extractComponentProps env' cd))"
  then show "\<exists>typeName. isPropsInterface typeName x"
    unfolding d set_uniqBy by (rule createDefaultPropsInterface_cd_shape)
qed

theorem synthetic_fallback_witness:
  "declarations (extractAllComponentProps env_nothingFound ''not-found'') =
     [createDefaultPropsInterface ''not-found''] \<and>
   declarations (extractComponentProps env_cd_nothingFound cd_notFound) =
     uniqBy (\<lambda>x. x) (createDefaultPropsInterface_cd cd_notFound) \<and>
   hd (declarations (extractComponentProps env_cd_nothingFound cd_notFound)) =
     createSingleComponentProps cd_notFound None \<and>
   isPropsInterface (pascalCaseName ''not-found'' @ ''Props'') (createDefaultPropsInterface ''not-found'') \<and>
   isPropsInterface (pascalName cd_notFound @ ''Props'') (createSingleComponentProps cd_notFound None)"
proof -
  have n: "\<not> isPropsType ''Not'' ''not-found''"
    by code_simp
  have r: "\<not> isReactTypeReference ''React.ReactNode''"
    by code_simp
  have "extractPropsFromFile env_nothingFound ''not-found-default.tsx'' ''not-found'' =
      ([], [TsMorph, Babel, Regex])"
    using n r
    by (simp add: extractPropsFromFile_def extractPropsWithTsMorph_def extractPropsWithBabel_def
          extractPropsWithRegex_def env_nothingFound_def)
  then have a: "\<forall>file \<in> set [''not-found-default.tsx''].
      fst (extractPropsFromFile env_nothingFound file ''not-found'') = []"
    by simp
  have f: "findComponentFiles env_nothingFound ''not-found'' = Inr [''not-found-default.tsx'']"
    by (simp add: env_nothingFound_def)
  have f': "findComponentFiles_cd env_cd_nothingFound cd_notFound =
      (Inr [''not-found.tsx''], cd_notFound)"
    by (simp add: env_cd_nothingFound_def)
  have b: "\<forall>r \<in> set (fileResults env_cd_nothingFound [''not-found.tsx''] cd_notFound).
      candidatesOf r = []"
    by (simp add: env_cd_nothingFound_def candidatesOf_def)
  have s: "cd_notFound = snd (processFiles env_cd_nothingFound [''not-found.tsx''] cd_notFound [])"
    by (simp add: env_cd_nothingFound_def)
  show ?thesis
    using synthetic_fallback [of env_nothingFound "''not-found''" env_cd_nothingFound cd_notFound]
      a b f f' s
    by blast
qed

text \<open>
  C4, as amended.  In \<open>extractComponentProps\<close>, a declaration text that two files of
  the run contribute stands at least twice in the merged list and exactly once among
  the declarations of the document, whose declarations are pairwise different and are
  the texts of the merged list.  \<open>extractAllComponentProps\<close> removes nothing: whenever
  its files give a candidate, the declarations of its document are the lists of the
  files one after the other.
\<close>

theorem duplicates_removed:
  assumes found: "findComponentFiles_cd env cd = (Inr files, cd1)"
    and ij: "i < j" "j < length files"
    and ci: "decl \<in> set (candidatesOf (fileResults env files cd1 ! i))"
    and cj: "decl \<in> set (candidatesOf (fileResults env files cd1 ! j))"
  shows "2 \<le> count_list (fst (processFiles env files cd1 [])) decl \<and>
         count_list (declarations (extractComponentProps env cd)) decl = 1 \<and>
         distinct (declarations (extractComponentProps env cd)) \<and>
         set (declarations (extractComponentProps env cd)) = set (fst (processFiles env files cd1 [])) \<and>
         (\<forall>files0. findComponentFiles env0 cname = Inr files0 \<longrightarrow>
            concat (map (\<lambda>file. fst (extractPropsFromFile env0 file cname)) files0) \<noteq> [] \<longrightarrow>
            declarations (extractAllComponentProps env0 cname) =
              concat (map (\<lambda>file. fst (extractPropsFromFile env0 file cname)) files0))"
proof -
  let ?merged = "fst (processFiles env files cd1 [])"
  have m: "?merged = concat (map candidatesOf (fileResults env files cd1))"
    by (simp add: processFiles_fileResults)
  have two: "2 \<le> count_list ?merged decl"
    unfolding m using ij(1) _ ci cj
    by (rule count_list_concat_ge) (simp add: length_fileResults ij(2))
  then have "count_list ?merged decl \<noteq> 0" by simp
  then have mem: "decl \<in> set ?merged"
    by (simp add: count_list_0_iff)
  then have ne: "?merged \<noteq> []" by auto
  obtain ap cd2 where pf: "processFiles env files cd1 [] = (ap, cd2)"
    by (cases "processFiles env files cd1 []")
  have decls: "declarations (extractComponentProps env cd) = uniqBy (\<lambda>x. x) ?merged"
    using found ne by (simp add: extractComponentProps_def pf)
  have "distinct (declarations (extractComponentProps env cd))"
    by (simp add: decls distinct_uniqBy)
  moreover have s: "set (declarations (extractComponentProps env cd)) = set ?merged"
    by (simp add: decls set_uniqBy)
  moreover have "\<forall>files0. findComponentFiles env0 cname = Inr files0 \<longrightarrow>
            concat (map (\<lambda>file. fst (extractPropsFromFile env0 file cname)) files0) \<noteq> [] \<longrightarrow>
            declarations (extractAllComponentProps env0 cname) =
              concat (map (\<lambda>file. fst (extractPropsFromFile env0 file cname)) files0)"
    by (simp add: extractAllComponentProps_def Let_def)
  ultimately show ?thesis using two mem by (simp add: count_list_distinct)
qed

theorem duplicates_removed_witness:
  "2 \<le> count_list (fst (processFiles env_cd_twoFiles [''foo.tsx'', ''foo/index.tsx''] cd_card []))
          ''type FooProps = { a: string };'' \<and>
   count_list (declarations (extractComponentProps env_cd_twoFiles cd_card))
     ''type FooProps = { a: string };'' = 1 \<and>
   declarations (extractAllComponentProps env_twoFiles ''foo'') =
     concat (map (\<lambda>file. fst (extractPropsFromFile env_twoFiles file ''foo''))
                 [''foo.tsx'', ''foo/index.tsx''])"
proof -
  let ?d = "''type FooProps = { a: string };''"
  have found: "findComponentFiles_cd env_cd_twoFiles cd_card =
      (Inr [''foo.tsx'', ''foo/index.tsx''], cd_card)"
    by (simp add: env_cd_twoFiles_def)
  have r: "fileResults env_cd_twoFiles [''foo.tsx'', ''foo/index.tsx''] cd_card = [Inr [?d], Inr [?d]]"
    by (simp add: env_cd_twoFiles_def)
  have c0: "?d \<in> set (candidatesOf (fileResults env_cd_twoFiles [''foo.tsx'', ''foo/index.tsx''] cd_card ! 0))"
    unfolding r by (simp add: candidatesOf_def)
  have c1: "?d \<in> set (candidatesOf (fileResults env_cd_twoFiles [''foo.tsx'', ''foo/index.tsx''] cd_card ! 1))"
    unfolding r by (simp add: candidatesOf_def)
  have f0: "findComponentFiles env_twoFiles ''foo'' = Inr [''foo.tsx'', ''foo/index.tsx'']"
    by (simp add: env_twoFiles_def)
  have p: "isPropsType ''FooProps'' ''foo''"
    by code_simp
  have ne: "concat (map (\<lambda>file. fst (extractPropsFromFile env_twoFiles file ''foo''))
                 [''foo.tsx'', ''foo/index.tsx'']) \<noteq> []"
    using p by (simp add: extractPropsFromFile_def extractPropsWithTsMorph_def env_twoFiles_def)
  show ?thesis
    using duplicates_removed [OF found _ _ c0 c1, of env_twoFiles "''foo''"] f0 ne
    by simp
qed

text \<open>
  The claim as first stated covers \<open>extractAllComponentProps\<close> as well, which removes
  nothing: the text that both files declare stands twice in its document.
\<close>

theorem extractAllComponentProps_keeps_duplicates:
  "declarations (extractAllComponentProps env_twoFiles ''foo'') =
     [''type FooProps = { a: string };'', ''type FooProps = { a: string };'']"
proof -
  have p: "isPropsType ''FooProps'' ''foo''"
    by code_simp
  then show ?thesis
    by (simp add: extractAllComponentProps_def extractPropsFromFile_def
          extractPropsWithTsMorph_def env_twoFiles_def)
qed

section \<open>Properties of the deduplication\<close>

lemma insertionOrder_fold:
  "distinct acc \<Longrightarrow>
   distinct (foldl (\<lambda>ks k. if k \<in> set ks then ks else ks @ [k]) acc keys) \<and>
   set (foldl (\<lambda>ks k. if k \<in> set ks then ks else ks @ [k]) acc keys) = set acc \<union> set keys"
  by (induction keys arbitrary: acc) auto

lemma insertionOrder_distinct: "distinct (insertionOrder keys)"
  by (simp add: insertionOrder_def insertionOrder_fold)

lemma insertionOrder_set: "set (insertionOrder keys) = set keys"
  by (simp add: insertionOrder_def insertionOrder_fold)

lemma ownKeysOrder_mset: "mset (ownKeysOrder keys) = mset (insertionOrder keys)"
  by (simp add: ownKeysOrder_def)

lemma ownKeysOrder_distinct: "distinct (ownKeysOrder keys)"
  using ownKeysOrder_mset insertionOrder_distinct by (metis mset_eq_imp_distinct_iff)

lemma ownKeysOrder_set: "set (ownKeysOrder keys) = set keys"
  using ownKeysOrder_mset insertionOrder_set by (metis mset_eq_setD)

lemma filter_disjoint_mset:
  "(\<And>x. \<not> (P x \<and> Q x)) \<Longrightarrow>
   mset (filter P xs) + mset (filter Q xs) = mset (filter (\<lambda>x. P x \<or> Q x) xs)"
  by (induction xs) auto

lemma group_partition:
  "distinct ks \<Longrightarrow>
   mset (concat (map (\<lambda>k. filter (\<lambda>x. f x = k) xs) ks)) = mset (filter (\<lambda>x. f x \<in> set ks) xs)"
proof (induction ks)
  case Nil
  then show ?case by simp
next
  case (Cons k ks)
  then have "mset (filter (\<lambda>x. f x = k) xs) + mset (filter (\<lambda>x. f x \<in> set ks) xs) =
      mset (filter (\<lambda>x. f x = k \<or> f x \<in> set ks) xs)"
    by (intro filter_disjoint_mset) auto
  with Cons show ?case by simp
qed

lemma isWordChar_not_space: "isWordChar c \<Longrightarrow> \<not> isSpace c"
  by (auto simp: isWordChar_def isAlnum_def isLower_def isUpper_def isDigit_def isSpace_def)

lemma typeName_not_space:
  "list_all isWordChar pname \<Longrightarrow> \<not> isSpace (hd (pname @ ''Props'' @ rest))"
  by (cases pname) (simp_all add: isWordChar_not_space, simp add: isSpace_def)

lemma dropWhile_space_typeName:
  "list_all isSpace ws \<Longrightarrow> list_all isWordChar pname \<Longrightarrow>
   dropWhile isSpace (ws @ pname @ ''Props'' @ rest) = pname @ ''Props'' @ rest"
proof (induction ws)
  case Nil
  have "pname @ ''Props'' @ rest = hd (pname @ ''Props'' @ rest) # tl (pname @ ''Props'' @ rest)"
    by simp
  then show ?case using typeName_not_space [OF Nil(2), of rest]
    by (metis append_Nil dropWhile.simps(2))
next
  case (Cons w ws)
  then show ?case by simp
qed

lemma stripKeyword_keyword:
  "keyword = ''type'' \<or> keyword = ''interface'' \<Longrightarrow> stripKeyword (keyword @ r) = Some (keyword, r)"
  by (erule disjE) (simp_all add: stripKeyword_def)

lemma matchHeader_header:
  assumes kw: "keyword = ''type'' \<or> keyword = ''interface''"
    and w: "isSpace w" and ws: "list_all isSpace ws" and p: "list_all isWordChar pname"
  shows "matchHeader (pname @ ''Props'') (keyword @ w # ws @ pname @ ''Props'' @ rest) =
         Some (keyword, rest)"
proof -
  let ?r = "w # ws @ pname @ ''Props'' @ rest"
  have d: "dropWhile isSpace ?r = (pname @ ''Props'') @ rest"
    using dropWhile_space_typeName [of "w # ws" pname rest] w ws p by simp
  show ?thesis
    unfolding matchHeader_def stripKeyword_keyword [OF kw] using w
    by (simp only: d option.case prod.case list.sel prefixI [OF refl] append_eq_conv_conj
          simp_thms if_True list.distinct not_False_eq_True)
       simp
qed

lemma stripKeyword_Some:
  "stripKeyword s = Some (keyword, r) \<Longrightarrow>
   (keyword = ''type'' \<or> keyword = ''interface'') \<and> s = keyword @ r"
  by (auto simp: stripKeyword_def prefix_def split: if_splits)

lemma matchHeader_Some:
  assumes "matchHeader typeName s = Some (keyword, rest)"
  shows "headerOccurs typeName s [] keyword rest"
proof -
  from assms obtain r where s: "stripKeyword s = Some (keyword, r)"
    and r: "r \<noteq> []" "isSpace (hd r)" "prefix typeName (dropWhile isSpace r)"
    and rest: "rest = drop (length typeName) (dropWhile isSpace r)"
    by (auto simp: matchHeader_def split: option.splits if_splits)
  from stripKeyword_Some [OF s] have kw: "keyword = ''type'' \<or> keyword = ''interface''"
    and sk: "s = keyword @ r" by simp_all
  from r(3) rest have d: "dropWhile isSpace r = typeName @ rest"
    by (auto simp: prefix_def)
  obtain w ws where tw: "takeWhile isSpace r = w # ws"
    using r(1,2) by (cases r) auto
  have "list_all isSpace (takeWhile isSpace r)"
    by (simp add: list_all_iff) (meson set_takeWhileD)
  then have sp: "isSpace w" "list_all isSpace ws" unfolding tw by simp_all
  have "r = takeWhile isSpace r @ dropWhile isSpace r" by simp
  then have "r = w # ws @ typeName @ rest" unfolding tw d by simp
  with kw sk sp show ?thesis
    unfolding headerOccurs_def by auto
qed

lemma headerOccurs_matchHeader:
  assumes p: "list_all isWordChar pname"
  shows "headerOccurs (pname @ ''Props'') t pre keyword rest \<longleftrightarrow>
         (\<exists>s. t = pre @ s \<and> matchHeader (pname @ ''Props'') s = Some (keyword, rest))"
proof
  assume "headerOccurs (pname @ ''Props'') t pre keyword rest"
  then obtain w ws where kw: "keyword = ''type'' \<or> keyword = ''interface''"
    and sp: "isSpace w" "list_all isSpace ws"
    and t: "t = pre @ keyword @ w # ws @ (pname @ ''Props'') @ rest"
    unfolding headerOccurs_def by blast
  have "matchHeader (pname @ ''Props'') (keyword @ w # ws @ pname @ ''Props'' @ rest) =
      Some (keyword, rest)"
    using kw sp p by (rule matchHeader_header)
  with t show "\<exists>s. t = pre @ s \<and> matchHeader (pname @ ''Props'') s = Some (keyword, rest)"
    by simp
next
  assume "\<exists>s. t = pre @ s \<and> matchHeader (pname @ ''Props'') s = Some (keyword, rest)"
  then obtain s where t: "t = pre @ s"
    and m: "matchHeader (pname @ ''Props'') s = Some (keyword, rest)"
    by blast
  from matchHeader_Some [OF m] show "headerOccurs (pname @ ''Props'') t pre keyword rest"
    unfolding headerOccurs_def t by auto
qed

lemma matchHeader_Nil: "matchHeader typeName [] = None"
  by (simp add: matchHeader_def stripKeyword_def)

lemma replaceHeader_match:
  "matchHeader typeName s = Some (keyword, rest) \<Longrightarrow>
   replaceHeader typeName newName s = keyword @ '' '' @ newName @ rest"
  by (cases s) (simp_all add: matchHeader_Nil)

lemma replaceHeader_skip:
  "(\<And>i. i < length pre \<Longrightarrow> matchHeader typeName (drop i (pre @ s)) = None) \<Longrightarrow>
   replaceHeader typeName newName (pre @ s) = pre @ replaceHeader typeName newName s"
proof (induction pre)
  case Nil
  then show ?case by simp
next
  case (Cons c pre)
  have "matchHeader typeName (drop 0 ((c # pre) @ s)) = None"
    by (rule Cons.prems) simp
  then have h: "matchHeader typeName (c # pre @ s) = None" by simp
  have "matchHeader typeName (drop i (pre @ s)) = None" if "i < length pre" for i
    using Cons.prems [of "Suc i"] that by simp
  then have "replaceHeader typeName newName (pre @ s) = pre @ replaceHeader typeName newName s"
    by (rule Cons.IH)
  with h show ?case by simp
qed

lemma replaceHeader_leftmost:
  assumes p: "list_all isWordChar pname"
    and occ: "headerOccurs (pname @ ''Props'') t pre keyword rest"
    and least: "\<And>pre' keyword' rest'.
      headerOccurs (pname @ ''Props'') t pre' keyword' rest' \<Longrightarrow> length pre \<le> length pre'"
  shows "replaceHeader (pname @ ''Props'') newName t = pre @ keyword @ '' '' @ newName @ rest"
proof -
  from occ obtain s where t: "t = pre @ s"
    and m: "matchHeader (pname @ ''Props'') s = Some (keyword, rest)"
    unfolding headerOccurs_matchHeader [OF p] by blast
  have none: "matchHeader (pname @ ''Props'') (drop i (pre @ s)) = None" if i: "i < length pre" for i
  proof (cases "matchHeader (pname @ ''Props'') (drop i (pre @ s))")
    case None
    then show ?thesis .
  next
    case (Some a)
    obtain keyword' rest' where a: "a = (keyword', rest')" by (cases a)
    have "t = take i t @ drop i (pre @ s)" unfolding t by (simp only: append_take_drop_id)
    then have "headerOccurs (pname @ ''Props'') t (take i t) keyword' rest'"
      unfolding headerOccurs_matchHeader [OF p] using Some a by blast
    then have "length pre \<le> length (take i t)" by (rule least)
    with i show ?thesis by simp
  qed
  have "replaceHeader (pname @ ''Props'') newName (pre @ s) =
      pre @ replaceHeader (pname @ ''Props'') newName s"
    using none by (rule replaceHeader_skip)
  with m show ?thesis unfolding t by (simp add: replaceHeader_match)
qed

lemma replaceHeader_no_occurrence:
  assumes p: "list_all isWordChar pname"
    and none: "\<And>pre keyword rest. \<not> headerOccurs (pname @ ''Props'') t pre keyword rest"
  shows "replaceHeader (pname @ ''Props'') newName t = t"
proof -
  have n: "matchHeader (pname @ ''Props'') (drop i (t @ [])) = None" if "i < length t" for i
  proof (cases "matchHeader (pname @ ''Props'') (drop i (t @ []))")
    case None
    then show ?thesis .
  next
    case (Some a)
    obtain keyword' rest' where a: "a = (keyword', rest')" by (cases a)
    have "t = take i t @ drop i (t @ [])" by (simp only: append_take_drop_id append_Nil2)
    then have "headerOccurs (pname @ ''Props'') t (take i t) keyword' rest'"
      unfolding headerOccurs_matchHeader [OF p] using Some a by blast
    with none show ?thesis by blast
  qed
  have "replaceHeader (pname @ ''Props'') newName (t @ []) =
      t @ replaceHeader (pname @ ''Props'') newName []"
    using n by (rule replaceHeader_skip)
  then show ?thesis by simp
qed

lemma headerOccurs_position:
  assumes p: "list_all isWordChar pname"
    and occ: "headerOccurs (pname @ ''Props'') t pre keyword rest"
  shows "length pre \<le> length t \<and> matchHeader (pname @ ''Props'') (drop (length pre) t) \<noteq> None"
  using occ unfolding headerOccurs_matchHeader [OF p] by auto

lemma all_less_list_all: "(\<forall>i<n. P i) = list_all P [0..<n]"
  by (auto simp: list_all_iff)

lemma dedupe_groups_list:
  assumes two: "\<exists>p \<in> set foundProps. \<exists>q \<in> set foundProps. groupOf p \<noteq> groupOf q"
    and proto: "\<not> list_ex (\<lambda>g. g \<in> set objectPrototypeKeys) (map groupOf foundProps)"
  shows "fst (deduplicateAndNameProps foundProps cd) =
           Inr (concat (map (\<lambda>key. map (renderCandidate (pascalName cd))
                                       (filter (\<lambda>prop. groupOf prop = key) foundProps))
                            (ownKeysOrder (map groupOf foundProps)))) \<and>
         mset (concat (map (\<lambda>key. map (renderCandidate (pascalName cd))
                                       (filter (\<lambda>prop. groupOf prop = key) foundProps))
                            (ownKeysOrder (map groupOf foundProps)))) =
           mset (map (renderCandidate (pascalName cd)) foundProps)"
proof -
  let ?groups = "map groupOf foundProps"
  let ?keys = "ownKeysOrder ?groups"
  let ?r = "renderCandidate (pascalName cd)"
  obtain p q where pq: "p \<in> set foundProps" "q \<in> set foundProps" "groupOf p \<noteq> groupOf q"
    using two by blast
  have len: "\<not> length foundProps \<le> 1"
  proof
    assume "length foundProps \<le> 1"
    then have "card (set foundProps) \<le> 1" using card_length le_trans by blast
    moreover have "p \<noteq> q" using pq(3) by auto
    then have "card {p, q} = 2" by simp
    moreover have "card {p, q} \<le> card (set foundProps)"
      using pq(1,2) by (intro card_mono) auto
    ultimately show False by simp
  qed
  have dk: "distinct ?keys" by (rule ownKeysOrder_distinct)
  have sk: "set ?keys = groupOf ` set foundProps" by (simp add: ownKeysOrder_set)
  have "card (set ?keys) \<noteq> 1"
  proof
    assume "card (set ?keys) = 1"
    then obtain k where k: "set ?keys = {k}" by (auto simp: card_1_singleton_iff)
    have "groupOf p \<in> set ?keys" "groupOf q \<in> set ?keys" using sk pq(1,2) by auto
    then have "groupOf p = k" "groupOf q = k" unfolding k by auto
    with pq(3) show False by simp
  qed
  then have lk: "length ?keys \<noteq> 1" using dk by (simp add: distinct_card)
  define emit where "emit = (\<lambda>key.
       if key = ''Main'' \<or> length ?keys = 1
       then map ptext (filter (\<lambda>prop. groupOf prop = key) foundProps)
       else map (replaceHeader (pascalName cd @ ''Props'') (pascalName cd @ key @ ''Props''))
                (map ptext (filter (\<lambda>prop. groupOf prop = key) foundProps)))"
  have emit: "emit key = map ?r (filter (\<lambda>prop. groupOf prop = key) foundProps)" for key
    using lk by (auto simp: emit_def renderCandidate_def)
  then have emit_fun:
    "emit = (\<lambda>key. map ?r (filter (\<lambda>prop. groupOf prop = key) foundProps))"
    by (intro ext)
  have out: "fst (deduplicateAndNameProps foundProps cd) = Inr (concat (map emit ?keys))"
    using len proto by (simp add: deduplicateAndNameProps_def Let_def emit_def)
  have "concat (map emit ?keys) =
      map ?r (concat (map (\<lambda>key. filter (\<lambda>prop. groupOf prop = key) foundProps) ?keys))"
    by (simp add: emit_fun map_concat o_def)
  moreover have "mset (concat (map (\<lambda>key. filter (\<lambda>prop. groupOf prop = key) foundProps) ?keys)) =
      mset (filter (\<lambda>prop. groupOf prop \<in> set ?keys) foundProps)"
    using dk by (rule group_partition)
  moreover have "filter (\<lambda>prop. groupOf prop \<in> set ?keys) foundProps = foundProps"
    by (simp add: sk)
  ultimately have "mset (concat (map emit ?keys)) = mset (map ?r foundProps)"
    by (metis mset_map)
  with out show ?thesis unfolding emit_fun by simp
qed

text \<open>
  C3, as amended.  For a candidate list with at least two groups (the Pascal-case name
  and the tags made of \<^verbatim>\<open>[A-Za-z0-9_]\<close>, the texts made of ASCII characters, no tag
  naming a member of \<^verbatim>\<open>Object.prototype\<close>) the function returns one text for each
  candidate, group by group in the order of the keys and, within a group, in the order
  of the list.  A candidate of the root group keeps its text.  For any other candidate
  the first place of its text where a keyword, white space and the base name follow one
  another has the white space replaced by one space and the base name by the name with
  the candidate's tag, and everything before and after that place is kept; a text with
  no such place is returned as it is.
\<close>

theorem deduplicateAndNameProps_renames:
  assumes pname: "list_all isWordChar (pascalName cd)"
    and tags: "\<forall>p \<in> set foundProps. list_all isWordChar (groupOf p)"
    and ascii: "\<forall>p \<in> set foundProps. isAscii (ptext p)"
    and two: "\<exists>p \<in> set foundProps. \<exists>q \<in> set foundProps. groupOf p \<noteq> groupOf q"
    and proto: "\<not> list_ex (\<lambda>g. g \<in> set objectPrototypeKeys) (map groupOf foundProps)"
  shows "(\<exists>out. fst (deduplicateAndNameProps foundProps cd) = Inr out \<and>
            out = concat (map (\<lambda>key. map (renderCandidate (pascalName cd))
                                        (filter (\<lambda>prop. groupOf prop = key) foundProps))
                              (ownKeysOrder (map groupOf foundProps))) \<and>
            mset out = mset (map (renderCandidate (pascalName cd)) foundProps)) \<and>
         (\<forall>p \<in> set foundProps. groupOf p = ''Main'' \<longrightarrow>
            renderCandidate (pascalName cd) p = ptext p) \<and>
         (\<forall>p \<in> set foundProps. \<forall>pre keyword rest.
            groupOf p \<noteq> ''Main'' \<longrightarrow>
            headerOccurs (pascalName cd @ ''Props'') (ptext p) pre keyword rest \<longrightarrow>
            (\<forall>pre' keyword' rest'.
               headerOccurs (pascalName cd @ ''Props'') (ptext p) pre' keyword' rest' \<longrightarrow>
               length pre \<le> length pre') \<longrightarrow>
            renderCandidate (pascalName cd) p =
              pre @ keyword @ '' '' @ pascalName cd @ groupOf p @ ''Props'' @ rest) \<and>
         (\<forall>p \<in> set foundProps.
            (\<forall>pre keyword rest.
               \<not> headerOccurs (pascalName cd @ ''Props'') (ptext p) pre keyword rest) \<longrightarrow>
            renderCandidate (pascalName cd) p = ptext p)"
proof (intro conjI ballI allI impI)
  show "\<exists>out. fst (deduplicateAndNameProps foundProps cd) = Inr out \<and>
      out = concat (map (\<lambda>key. map (renderCandidate (pascalName cd))
                                  (filter (\<lambda>prop. groupOf prop = key) foundProps))
                        (ownKeysOrder (map groupOf foundProps))) \<and>
      mset out = mset (map (renderCandidate (pascalName cd)) foundProps)"
    using dedupe_groups_list [OF two proto, of cd] by blast
next
  fix p :: PropCandidate
  assume "groupOf p = ''Main''"
  then show "renderCandidate (pascalName cd) p = ptext p"
    by (simp add: renderCandidate_def)
next
  fix p :: PropCandidate and pre keyword rest
  assume g: "groupOf p \<noteq> ''Main''"
    and occ: "headerOccurs (pascalName cd @ ''Props'') (ptext p) pre keyword rest"
    and least: "\<forall>pre' keyword' rest'.
               headerOccurs (pascalName cd @ ''Props'') (ptext p) pre' keyword' rest' \<longrightarrow>
               length pre \<le> length pre'"
  have "replaceHeader (pascalName cd @ ''Props'') (pascalName cd @ groupOf p @ ''Props'') (ptext p) =
      pre @ keyword @ '' '' @ (pascalName cd @ groupOf p @ ''Props'') @ rest"
    using pname occ least by (intro replaceHeader_leftmost) blast+
  with g show "renderCandidate (pascalName cd) p =
      pre @ keyword @ '' '' @ pascalName cd @ groupOf p @ ''Props'' @ rest"
    by (simp add: renderCandidate_def)
next
  fix p :: PropCandidate
  assume "\<forall>pre keyword rest.
               \<not> headerOccurs (pascalName cd @ ''Props'') (ptext p) pre keyword rest"
  then have "replaceHeader (pascalName cd @ ''Props'') (pascalName cd @ groupOf p @ ''Props'') (ptext p) =
      ptext p"
    using pname by (intro replaceHeader_no_occurrence) blast+
  then show "renderCandidate (pascalName cd) p = ptext p"
    by (simp add: renderCandidate_def)
qed

theorem deduplicateAndNameProps_renames_witness:
  "fst (deduplicateAndNameProps candidates_commentLine cd_card) =
     Inr [''// From React type reference\<newline>type CardItemProps = React.ComponentProps<typeof CardPrimitive.Item>;'',
          ''// props of the type header\<newline>export interface CardHeaderProps {\<newline>  title: string;\<newline>}'',
          ''interface CardProps { c: boolean }'']"
proof -
  define p1 where "p1 = \<lparr> ptext = ''// From React type reference\<newline>type CardItemProps = React.ComponentProps<typeof CardPrimitive.Item>;'',
         subComponent = Some ''Item'' \<rparr>"
  define p2 where "p2 = \<lparr> ptext = ''// props of the type header\<newline>export interface  CardProps {\<newline>  title: string;\<newline>}'',
         subComponent = Some ''Header'' \<rparr>"
  define p3 where "p3 = \<lparr> ptext = ''interface CardProps { c: boolean }'', subComponent = None :: string option \<rparr>"
  have c: "candidates_commentLine = [p1, p2, p3]"
    by (simp add: candidates_commentLine_def p1_def p2_def p3_def)
  have P: "pascalName cd_card = ''Card''"
    by (simp add: cd_card_def)
  have w: "list_all isWordChar ''Card''"
    by code_simp
  have h1: "list_all isWordChar (pascalName cd_card)"
    by code_simp
  have h2: "\<forall>p \<in> set candidates_commentLine. list_all isWordChar (groupOf p)"
    by code_simp
  have h3: "\<forall>p \<in> set candidates_commentLine. isAscii (ptext p)"
    by code_simp
  have h4: "\<exists>p \<in> set candidates_commentLine. \<exists>q \<in> set candidates_commentLine. groupOf p \<noteq> groupOf q"
    by code_simp
  have h5: "\<not> list_ex (\<lambda>g. g \<in> set objectPrototypeKeys) (map groupOf candidates_commentLine)"
    by code_simp
  note T = deduplicateAndNameProps_renames [OF h1 h2 h3 h4 h5, unfolded P c]
  have g: "groupOf p1 = ''Item''" "groupOf p2 = ''Header''" "groupOf p3 = ''Main''"
    by (simp_all add: groupOf_def p1_def p2_def p3_def)
  have keys: "ownKeysOrder (map groupOf [p1, p2, p3]) = [''Item'', ''Header'', ''Main'']"
    unfolding p1_def p2_def p3_def by code_simp
  note T1 = T [THEN conjunct1]
    and T2 = T [THEN conjunct2, THEN conjunct1]
    and T3 = T [THEN conjunct2, THEN conjunct2, THEN conjunct1]
    and T4 = T [THEN conjunct2, THEN conjunct2, THEN conjunct2]
  have m: "p1 \<in> set [p1, p2, p3]" "p2 \<in> set [p1, p2, p3]" "p3 \<in> set [p1, p2, p3]"
    by simp_all
  have r3: "renderCandidate ''Card'' p3 = ptext p3"
    using T2 m(3) g(3) by blast
  have n1: "list_all (\<lambda>i. matchHeader (''Card'' @ ''Props'') (drop i (ptext p1)) = None)
      [0..<Suc (length (ptext p1))]"
    unfolding p1_def by code_simp
  have no1: "\<not> headerOccurs (''Card'' @ ''Props'') (ptext p1) pre keyword rest" for pre keyword rest
    using headerOccurs_position [OF w, of "ptext p1" pre keyword rest] n1
    unfolding all_less_list_all [symmetric] by (auto simp: less_Suc_eq_le)
  have r1: "renderCandidate ''Card'' p1 = ptext p1"
    using T4 m(1) no1 by blast
  have occ: "headerOccurs (''Card'' @ ''Props'') (ptext p2)
      ''// props of the type header\<newline>export '' ''interface'' '' {\<newline>  title: string;\<newline>}''"
    unfolding headerOccurs_def p2_def
    by (intro conjI exI [of _ "CHR '' ''"] exI [of _ "'' ''"]) (simp_all add: isSpace_def)
  have n2: "list_all (\<lambda>i. matchHeader (''Card'' @ ''Props'') (drop i (ptext p2)) = None)
      [0..<length ''// props of the type header\<newline>export '']"
    unfolding p2_def by code_simp
  have least: "length ''// props of the type header\<newline>export '' \<le> length pre'"
    if "headerOccurs (''Card'' @ ''Props'') (ptext p2) pre' keyword' rest'" for pre' keyword' rest'
    using headerOccurs_position [OF w that] n2
    unfolding all_less_list_all [symmetric] by (meson not_le_imp_less)
  have r2: "renderCandidate ''Card'' p2 =
      ''// props of the type header\<newline>export '' @ ''interface'' @ '' '' @ ''Card'' @ groupOf p2 @ ''Props'' @
      '' {\<newline>  title: string;\<newline>}''"
  proof -
    have "groupOf p2 \<noteq> ''Main''" by (simp add: g)
    with T3 m(2) occ least show ?thesis by blast
  qed
  have f: "filter (\<lambda>prop. groupOf prop = ''Item'') [p1, p2, p3] = [p1]"
    "filter (\<lambda>prop. groupOf prop = ''Header'') [p1, p2, p3] = [p2]"
    "filter (\<lambda>prop. groupOf prop = ''Main'') [p1, p2, p3] = [p3]"
    by (simp_all add: g)
  have "fst (deduplicateAndNameProps [p1, p2, p3] cd_card) =
      Inr (concat (map (\<lambda>key. map (renderCandidate ''Card'')
                                  (filter (\<lambda>prop. groupOf prop = key) [p1, p2, p3]))
                        (ownKeysOrder (map groupOf [p1, p2, p3]))))"
    using T1 by blast
  then have "fst (deduplicateAndNameProps [p1, p2, p3] cd_card) =
      Inr [renderCandidate ''Card'' p1, renderCandidate ''Card'' p2, renderCandidate ''Card'' p3]"
    unfolding keys by (simp only: list.map concat.simps f append.simps)
  then show ?thesis
    unfolding c r1 r2 r3 g by (simp add: p1_def p2_def p3_def)
qed

text \<open>
  The claim as first stated fails on both counts.  Two candidates found for the same
  tag come out under one name, \<^verbatim>\<open>CardItemProps\<close>, with different texts; nothing tells
  them apart.  And the place that is rewritten need not be the header: here it is a
  comment in the body, while the header stays as it was.
\<close>

theorem deduplicateAndNameProps_counterexample:
  "fst (deduplicateAndNameProps candidates_sameTag cd_card) =
     Inr [''// From React type reference\<newline>type CardItemProps = React.ComponentProps<typeof CardPrimitive.Item>;'',
          ''// From React type reference\<newline>type CardItemProps = React.ComponentPropsWithoutRef<typeof CardPrimitive.Item>;'',
          ''interface CardProps { c: boolean }''] \<and>
   fst (deduplicateAndNameProps candidates_bodyMention cd_card) =
     Inr [''interface CardItemProps {\<newline>  // same as type CardItemProps\<newline>  x: number;\<newline>}'',
          ''type CardProps = { c: boolean };'']"
  by code_simp

section \<open>Properties of the props-type predicate\<close>

lemma includes_str_self: "includes_str s s"
  by (cases s) simp_all

lemma babelVisit_member:
  "t \<in> set (babelVisit code cname node) \<Longrightarrow>
   \<exists>n s e. isPropsType n cname \<and> t = slice code s e \<and>
     (node = InterfaceNode n (Some s) (Some e) \<or> node = TypeAliasNode n (Some s) (Some e) \<or>
      node = ExportNamedNode (Some (TSInterfaceDeclaration n)) (Some s) (Some e) \<or>
      node = ExportNamedNode (Some (TSTypeAliasDeclaration n)) (Some s) (Some e))"
  by (induction code cname node rule: babelVisit.induct) (auto split: if_splits)

lemma babelVisit_accepts:
  "isPropsType n cname \<Longrightarrow>
   node = InterfaceNode n (Some s) (Some e) \<or> node = TypeAliasNode n (Some s) (Some e) \<or>
   node = ExportNamedNode (Some (TSInterfaceDeclaration n)) (Some s) (Some e) \<or>
   node = ExportNamedNode (Some (TSTypeAliasDeclaration n)) (Some s) (Some e) \<Longrightarrow>
   babelVisit code cname node = [slice code s e]"
  by auto

lemma extractPropsWithTsMorph_sound:
  assumes "addSourceFileAtPath env file = Inr sf" "t \<in> set (extractPropsWithTsMorph env file cname)"
  shows "(\<exists>n. isPropsType n cname \<and>
            ((n, t) \<in> set (interfaces sf) \<union> set (typeAliases sf) \<or>
             (\<exists>ds. (n, ds) \<in> set (exportedDeclarations sf) \<and> t \<in> set ds))) \<or>
         (\<exists>r \<in> set (typeReferences sf). isReactTypeReference r \<and> t = fromReactTypeReference cname r)"
  using assms by (auto simp: extractPropsWithTsMorph_def)

lemma extractPropsWithTsMorph_complete:
  assumes "addSourceFileAtPath env file = Inr sf" "isPropsType n cname"
    "(n, t) \<in> set (interfaces sf) \<union> set (typeAliases sf) \<or>
     (\<exists>ds. (n, ds) \<in> set (exportedDeclarations sf) \<and> t \<in> set ds)"
  shows "t \<in> set (extractPropsWithTsMorph env file cname)"
  using assms by (force simp: extractPropsWithTsMorph_def)

lemma extractPropsWithBabel_sound:
  assumes "readFile env file = Inr code" "babelTraverse env code = Inr nodes"
    "t \<in> set (extractPropsWithBabel env file cname)"
  shows "\<exists>n s e. isPropsType n cname \<and> t = slice code s e \<and>
     (InterfaceNode n (Some s) (Some e) \<in> set nodes \<or> TypeAliasNode n (Some s) (Some e) \<in> set nodes \<or>
      ExportNamedNode (Some (TSInterfaceDeclaration n)) (Some s) (Some e) \<in> set nodes \<or>
      ExportNamedNode (Some (TSTypeAliasDeclaration n)) (Some s) (Some e) \<in> set nodes)"
proof -
  from assms obtain node where n: "node \<in> set nodes" "t \<in> set (babelVisit code cname node)"
    by (auto simp: extractPropsWithBabel_def)
  from babelVisit_member [OF n(2)] n(1) show ?thesis by blast
qed

lemma extractPropsWithBabel_complete:
  assumes "readFile env file = Inr code" "babelTraverse env code = Inr nodes" "isPropsType n cname"
    "InterfaceNode n (Some s) (Some e) \<in> set nodes \<or> TypeAliasNode n (Some s) (Some e) \<in> set nodes \<or>
     ExportNamedNode (Some (TSInterfaceDeclaration n)) (Some s) (Some e) \<in> set nodes \<or>
     ExportNamedNode (Some (TSTypeAliasDeclaration n)) (Some s) (Some e) \<in> set nodes"
  shows "slice code s e \<in> set (extractPropsWithBabel env file cname)"
proof -
  from assms(4) obtain node where n: "node \<in> set nodes"
    "node = InterfaceNode n (Some s) (Some e) \<or> node = TypeAliasNode n (Some s) (Some e) \<or>
     node = ExportNamedNode (Some (TSInterfaceDeclaration n)) (Some s) (Some e) \<or>
     node = ExportNamedNode (Some (TSTypeAliasDeclaration n)) (Some s) (Some e)"
    by blast
  have "babelVisit code cname node = [slice code s e]"
    using assms(3) n(2) by (rule babelVisit_accepts)
  with n(1) assms(1,2) show ?thesis
    by (force simp: extractPropsWithBabel_def)
qed

lemma extractPropsWithRegex_sound:
  assumes "readFile env file = Inr code" "t \<in> set (extractPropsWithRegex env file cname)"
  shows "(\<exists>n. isPropsType n cname \<and> (t, n) \<in> set (interfaceRegex env code) \<union> set (typeRegex env code)) \<or>
         (\<exists>m \<in> set (componentPropsRegex env code). t = fromReactTypeReference cname m)"
  using assms by (auto simp: extractPropsWithRegex_def)

lemma extractPropsWithRegex_complete:
  assumes "readFile env file = Inr code" "isPropsType n cname"
    "(t, n) \<in> set (interfaceRegex env code) \<union> set (typeRegex env code)"
  shows "t \<in> set (extractPropsWithRegex env file cname)"
  using assms by (force simp: extractPropsWithRegex_def)

lemma typeReference_emitted:
  "addSourceFileAtPath env file = Inr sf \<Longrightarrow> r \<in> set (typeReferences sf) \<Longrightarrow>
   isReactTypeReference r \<Longrightarrow>
   fromReactTypeReference cname r \<in> set (extractPropsWithTsMorph env file cname)"
  by (force simp: extractPropsWithTsMorph_def)

lemma componentProps_emitted:
  "readFile env file = Inr code \<Longrightarrow> m \<in> set (componentPropsRegex env code) \<Longrightarrow>
   fromReactTypeReference cname m \<in> set (extractPropsWithRegex env file cname)"
  by (force simp: extractPropsWithRegex_def)

text \<open>
  C5, as amended.  For names made of ASCII characters: \<open>isPropsType\<close> of
  \<^verbatim>\<open>get-component-props.ts\<close> holds exactly when the name contains \<^verbatim>\<open>Props\<close>, or
  the lower-cased name contains the lower-cased raw component name together with
  \<^verbatim>\<open>props\<close> or \<^verbatim>\<open>attributes\<close>.  \<open>isPropsType\<close> of the second extractor holds
  exactly when the name contains \<^verbatim>\<open>Props\<close>, or is \<^verbatim>\<open>props\<close> in any casing, or
  contains, lower-cased, \<^verbatim>\<open>props\<close> together with the lower-cased raw, kebab-case or
  Pascal-case name.  The three tiers of \<^verbatim>\<open>get-component-props.ts\<close> call the first
  predicate with the same component name: each tier emits a text exactly when it is the
  text of a declaration shown to the tier under a name the predicate accepts, or an
  alias the tier makes up for a React type reference.
\<close>

theorem isPropsType_characterisation:
  assumes "isAscii name" and "isAscii cname"
    and "isAscii (componentName cd)" and "isAscii (normalizedName_cd cd)" and "isAscii (pascalName cd)"
  shows
  "(isPropsType name cname \<longleftrightarrow>
      includes_str name ''Props'' \<or>
      (includes_str (toLowerCase name) (toLowerCase cname) \<and>
       (includes_str (toLowerCase name) ''props'' \<or>
        includes_str (toLowerCase name) ''attributes''))) \<and>
   (isPropsType_cd name cd \<longleftrightarrow>
      includes_str name ''Props'' \<or>
      toLowerCase name = ''props'' \<or>
      (includes_str (toLowerCase name) ''props'' \<and>
       (includes_str (toLowerCase name) (toLowerCase (componentName cd)) \<or>
        includes_str (toLowerCase name) (toLowerCase (normalizedName_cd cd)) \<or>
        includes_str (toLowerCase name) (toLowerCase (pascalName cd))))) \<and>
   (\<forall>sf t.
      addSourceFileAtPath env file = Inr sf \<longrightarrow>
      (\<forall>n \<in> fst ` (set (interfaces sf) \<union> set (typeAliases sf)) \<union>
              fst ` set (exportedDeclarations sf). isAscii n) \<longrightarrow>
      (t \<in> set (extractPropsWithTsMorph env file cname) \<longleftrightarrow>
         (\<exists>n. isPropsType n cname \<and>
            ((n, t) \<in> set (interfaces sf) \<union> set (typeAliases sf) \<or>
             (\<exists>ds. (n, ds) \<in> set (exportedDeclarations sf) \<and> t \<in> set ds))) \<or>
         (\<exists>r \<in> set (typeReferences sf).
            isReactTypeReference r \<and> t = fromReactTypeReference cname r))) \<and>
   (\<forall>code nodes t.
      readFile env file = Inr code \<longrightarrow> babelTraverse env code = Inr nodes \<longrightarrow>
      (\<forall>node \<in> set nodes. isAscii (babelNodeName node)) \<longrightarrow>
      (t \<in> set (extractPropsWithBabel env file cname) \<longleftrightarrow>
         (\<exists>n s e. isPropsType n cname \<and> t = slice code s e \<and>
            (InterfaceNode n (Some s) (Some e) \<in> set nodes \<or>
             TypeAliasNode n (Some s) (Some e) \<in> set nodes \<or>
             ExportNamedNode (Some (TSInterfaceDeclaration n)) (Some s) (Some e) \<in> set nodes \<or>
             ExportNamedNode (Some (TSTypeAliasDeclaration n)) (Some s) (Some e) \<in> set nodes)))) \<and>
   (\<forall>code t.
      readFile env file = Inr code \<longrightarrow>
      (\<forall>n \<in> snd ` (set (interfaceRegex env code) \<union> set (typeRegex env code)). isAscii n) \<longrightarrow>
      (t \<in> set (extractPropsWithRegex env file cname) \<longleftrightarrow>
         (\<exists>n. isPropsType n cname \<and>
            (t, n) \<in> set (interfaceRegex env code) \<union> set (typeRegex env code)) \<or>
         (\<exists>m \<in> set (componentPropsRegex env code). t = fromReactTypeReference cname m)))"
proof (intro conjI allI impI)
  show "isPropsType name cname \<longleftrightarrow>
      includes_str name ''Props'' \<or>
      (includes_str (toLowerCase name) (toLowerCase cname) \<and>
       (includes_str (toLowerCase name) ''props'' \<or>
        includes_str (toLowerCase name) ''attributes''))"
    using includes_str_self [of "''Props''"] by (auto simp: isPropsType_def Let_def)
  show "isPropsType_cd name cd \<longleftrightarrow>
      includes_str name ''Props'' \<or>
      toLowerCase name = ''props'' \<or>
      (includes_str (toLowerCase name) ''props'' \<and>
       (includes_str (toLowerCase name) (toLowerCase (componentName cd)) \<or>
        includes_str (toLowerCase name) (toLowerCase (normalizedName_cd cd)) \<or>
        includes_str (toLowerCase name) (toLowerCase (pascalName cd))))"
    by (simp add: isPropsType_cd_def Let_def)
next
  fix sf t
  assume "addSourceFileAtPath env file = Inr sf"
  then show "t \<in> set (extractPropsWithTsMorph env file cname) \<longleftrightarrow>
         (\<exists>n. isPropsType n cname \<and>
            ((n, t) \<in> set (interfaces sf) \<union> set (typeAliases sf) \<or>
             (\<exists>ds. (n, ds) \<in> set (exportedDeclarations sf) \<and> t \<in> set ds))) \<or>
         (\<exists>r \<in> set (typeReferences sf).
            isReactTypeReference r \<and> t = fromReactTypeReference cname r)"
    using extractPropsWithTsMorph_sound [of env "file" sf t cname]
      extractPropsWithTsMorph_complete [of env "file" sf _ cname t]
      typeReference_emitted [of env "file" sf _ cname]
    by blast
next
  fix code nodes t
  assume "readFile env file = Inr code" "babelTraverse env code = Inr nodes"
  then show "t \<in> set (extractPropsWithBabel env file cname) \<longleftrightarrow>
         (\<exists>n s e. isPropsType n cname \<and> t = slice code s e \<and>
            (InterfaceNode n (Some s) (Some e) \<in> set nodes \<or>
             TypeAliasNode n (Some s) (Some e) \<in> set nodes \<or>
             ExportNamedNode (Some (TSInterfaceDeclaration n)) (Some s) (Some e) \<in> set nodes \<or>
             ExportNamedNode (Some (TSTypeAliasDeclaration n)) (Some s) (Some e) \<in> set nodes))"
    using extractPropsWithBabel_sound [of env "file" code nodes t cname]
      extractPropsWithBabel_complete [of env "file" code nodes _ cname]
    by blast
next
  fix code t
  assume "readFile env file = Inr code"
  then show "t \<in> set (extractPropsWithRegex env file cname) \<longleftrightarrow>
         (\<exists>n. isPropsType n cname \<and>
            (t, n) \<in> set (interfaceRegex env code) \<union> set (typeRegex env code)) \<or>
         (\<exists>m \<in> set (componentPropsRegex env code). t = fromReactTypeReference cname m)"
    using extractPropsWithRegex_sound [of env "file" code t cname]
      extractPropsWithRegex_complete [of env "file" code _ cname t]
      componentProps_emitted [of env "file" code _ cname]
    by blast
qed

theorem isPropsType_characterisation_witness:
  "isPropsType ''FooProps'' ''foo'' \<and>
   isPropsType_cd ''CardProps'' cd_card \<and>
   ''type FooProps = { a: string };'' \<in> set (extractPropsWithTsMorph env_twoFiles ''foo.tsx'' ''foo'') \<and>
   ''interface FooProps { a: string }'' \<in> set (extractPropsWithRegex env_regexOnly ''foo.tsx'' ''foo'')"
proof -
  have h: "isAscii ''FooProps''" "isAscii ''foo''" "isAscii ''CardProps''"
    "isAscii (componentName cd_card)" "isAscii (normalizedName_cd cd_card)"
    "isAscii (pascalName cd_card)"
    by code_simp+
  note A = isPropsType_characterisation [OF h(1,2,4,5,6)]
  note B = isPropsType_characterisation [OF h(3,2,4,5,6)]
  have i: "includes_str ''FooProps'' ''Props''" "includes_str ''CardProps'' ''Props''"
    by code_simp+
  have p: "isPropsType ''FooProps'' ''foo''"
    using A [THEN conjunct1] i(1) by blast
  have q: "isPropsType_cd ''CardProps'' cd_card"
    using B [THEN conjunct2, THEN conjunct1] i(2) by blast
  define sf where "sf = \<lparr> interfaces = [], typeAliases = [(''FooProps'', ''type FooProps = { a: string };'')],
            exportedDeclarations = [] :: (string \<times> string list) list, typeReferences = [] :: string list \<rparr>"
  have a: "addSourceFileAtPath env_twoFiles ''foo.tsx'' = Inr sf"
    by (simp add: env_twoFiles_def sf_def)
  have a': "\<forall>n \<in> fst ` (set (interfaces sf) \<union> set (typeAliases sf)) \<union>
                  fst ` set (exportedDeclarations sf). isAscii n"
    using h(1) by (simp add: sf_def)
  have m: "(''FooProps'', ''type FooProps = { a: string };'') \<in> set (interfaces sf) \<union> set (typeAliases sf)"
    by (simp add: sf_def)
  have "''type FooProps = { a: string };'' \<in> set (extractPropsWithTsMorph env_twoFiles ''foo.tsx'' ''foo'')"
    using A [of env_twoFiles "''foo.tsx''", THEN conjunct2, THEN conjunct2, THEN conjunct1] a a' m p
    by blast
  moreover have r: "readFile env_regexOnly ''foo.tsx'' = Inr ''interface FooProps { a: string }''"
    "(''interface FooProps { a: string }'', ''FooProps'') \<in>
       set (interfaceRegex env_regexOnly ''interface FooProps { a: string }'') \<union>
       set (typeRegex env_regexOnly ''interface FooProps { a: string }'')"
    by (simp_all add: env_regexOnly_def)
  have r': "\<forall>n \<in> snd ` (set (interfaceRegex env_regexOnly ''interface FooProps { a: string }'') \<union>
                           set (typeRegex env_regexOnly ''interface FooProps { a: string }'')). isAscii n"
    using h(1) by (simp add: env_regexOnly_def)
  have "''interface FooProps { a: string }'' \<in> set (extractPropsWithRegex env_regexOnly ''foo.tsx'' ''foo'')"
    using A [of env_regexOnly "''foo.tsx''", THEN conjunct2, THEN conjunct2, THEN conjunct2,
             THEN conjunct2] r r' p
    by blast
  ultimately show ?thesis using p q by simp
qed

text \<open>
  The claim as first stated describes neither predicate: for the component
  \<^verbatim>\<open>not-found\<close> the name \<^verbatim>\<open>NotFoundAttributes\<close> contains the Pascal-case name and an
  attributes marker, and both predicates reject it, the first because it compares with
  the raw name only, the second because it has no attributes marker.
\<close>

theorem isPropsType_counterexample:
  "looksLikePropsType_spec ''NotFoundAttributes'' ''not-found'' ''not-found'' ''NotFound'' \<and>
   \<not> isPropsType ''NotFoundAttributes'' ''not-found'' \<and>
   \<not> isPropsType_cd ''NotFoundAttributes'' cd_notFound"
  by code_simp

section \<open>The synthetic default for not-found\<close>

text \<open>
  C8, as amended.  For \<^verbatim>\<open>not-found\<close> the kebab-case key is \<^verbatim>\<open>not-found\<close> and the
  Pascal-case prefix is \<^verbatim>\<open>NotFound\<close>.  In \<^verbatim>\<open>get-component-props.ts\<close>, when the
  file locator throws or no file gives a candidate, the one declaration of the document
  is the interface \<^verbatim>\<open>NotFoundProps\<close> with \<open>children\<close>, \<open>className\<close> and the index
  signature.  The generator of the second extractor has a template of its own for
  names containing \<^verbatim>\<open>not-found\<close>, which adds \<open>title\<close>, \<open>description\<close>,
  \<open>homeUrl\<close>, \<open>buttonText\<close> and \<open>onAction\<close>.
\<close>

theorem notFound_default:
  "normalizedName ''not-found'' = ''not-found'' \<and>
   pascalCaseName ''not-found'' = ''NotFound'' \<and>
   createDefaultPropsInterface ''not-found'' = notFound_declaration \<and>
   (\<forall>e. findComponentFiles env ''not-found'' = Inl e \<longrightarrow>
      declarations (extractAllComponentProps env ''not-found'') = [notFound_declaration]) \<and>
   (\<forall>files. findComponentFiles env ''not-found'' = Inr files \<longrightarrow>
      (\<forall>file \<in> set files. fst (extractPropsFromFile env file ''not-found'') = []) \<longrightarrow>
      declarations (extractAllComponentProps env ''not-found'') = [notFound_declaration]) \<and>
   createDefaultPropsInterface_cd cd_notFound = [notFound_declaration_cd]"
proof -
  have k: "normalizedName ''not-found'' = ''not-found''"
    by code_simp
  have p: "pascalCaseName ''not-found'' = ''NotFound''"
    by code_simp
  have d: "createDefaultPropsInterface ''not-found'' = notFound_declaration"
    by code_simp
  have d': "createDefaultPropsInterface_cd cd_notFound = [notFound_declaration_cd]"
    by code_simp
  show ?thesis
    unfolding k p d [symmetric] d'
    by (simp add: extractAllComponentProps_def Let_def)
qed

theorem notFound_default_witness:
  "declarations (extractAllComponentProps env_nothingFound ''not-found'') = [notFound_declaration]"
proof -
  have n: "\<not> isPropsType ''Not'' ''not-found''"
    by code_simp
  have r: "\<not> isReactTypeReference ''React.ReactNode''"
    by code_simp
  have "extractPropsFromFile env_nothingFound ''not-found-default.tsx'' ''not-found'' =
      ([], [TsMorph, Babel, Regex])"
    using n r
    by (simp add: extractPropsFromFile_def extractPropsWithTsMorph_def extractPropsWithBabel_def
          extractPropsWithRegex_def env_nothingFound_def)
  then have a: "\<forall>file \<in> set [''not-found-default.tsx''].
      fst (extractPropsFromFile env_nothingFound file ''not-found'') = []"
    by simp
  have f: "findComponentFiles env_nothingFound ''not-found'' = Inr [''not-found-default.tsx'']"
    by (simp add: env_nothingFound_def)
  show ?thesis
    using notFound_default [of env_nothingFound] a f by blast
qed

text \<open>
  The claim as first stated says the output for \<^verbatim>\<open>not-found\<close> has the children and
  class-name attributes only.  In the second extractor, with no candidate from any file,
  the declaration of the document has \<open>homeUrl\<close> among five further attributes.
\<close>

theorem notFound_cd_counterexample:
  "declarations (extractComponentProps env_cd_nothingFound cd_notFound) = [notFound_declaration_cd] \<and>
   includes_str notFound_declaration_cd ''homeUrl?: string;''"
  by code_simp

end
